theory Spec2Isabelle
  imports Main "HOL-Library.Word" "HOL-Library.Sublist"
begin

section \<open>Values of the JavaScript runtime\<close>

text \<open>
  A \<open>Buffer\<close> is a list of bytes. A JavaScript string is a sequence of UTF-16 code
  units; \<open>length\<close>, \<open>indexOf\<close>, \<open>slice\<close> and a regular expression without the
  \<open>u\<close> flag all count code units. The literals of the sources are ASCII, so \<open>js\<close>
  turns a HOL string literal into the JavaScript string with the same characters, and
  \<open>bytes_of\<close> into the buffer \<open>Buffer.from(s)\<close> of an ASCII string.
\<close>

type_synonym byte = "8 word"
type_synonym bytes = "byte list"
type_synonym code_unit = "16 word"
type_synonym jsstring = "code_unit list"

definition js :: "string \<Rightarrow> jsstring" where
  "js s = map (\<lambda>c. of_nat (of_char c)) s"

definition bytes_of :: "string \<Rightarrow> bytes" where
  "bytes_of s = map (\<lambda>c. of_nat (of_char c)) s"

text \<open>
  Errors as values. \<open>VerificationError\<close> carries the optional \<open>code\<close> and the
  message: the client package constructs it from a message alone
  (\<open>new VerificationError('...')\<close>, no code), the verify package from
  \<open>{code, message}\<close>. \<open>TypeError\<close> is what reading a property of \<open>undefined\<close>
  throws, \<open>SyntaxError\<close> what \<open>BigInt\<close> throws on a string that is no integer, and
  \<open>ForeignError\<close> stands for an exception of a collaborator that is not a
  \<open>VerificationError\<close> (Node's crypto, the ASN.1 parser). \<open>ValidationError\<close> is
  what the bundle package throws on a bundle that is not well formed.
\<close>

datatype error =
    VerificationError "string option" string
  | TypeError
  | SyntaxError
  | ForeignError
  | ValidationError

fun error_code :: "error \<Rightarrow> string option" where
  "error_code (VerificationError c m) = c"
| "error_code _ = None"

fun isVerificationError :: "error \<Rightarrow> bool" where
  "isVerificationError (VerificationError c m) = True"
| "isVerificationError _ = False"

subsection \<open>Strings\<close>

text \<open>\<open>String.prototype.includes\<close> and \<open>indexOf\<close> (\<open>-1\<close> when absent).\<close>

fun str_includes :: "'a list \<Rightarrow> 'a list \<Rightarrow> bool" where
  "str_includes [] p = (p = [])"
| "str_includes (x # xs) p = (prefix p (x # xs) \<or> str_includes xs p)"

fun indexOf :: "'a list \<Rightarrow> 'a list \<Rightarrow> int" where
  "indexOf [] p = (if p = [] then 0 else - 1)"
| "indexOf (x # xs) p =
     (if prefix p (x # xs) then 0
      else (let i = indexOf xs p in if i < 0 then - 1 else i + 1))"

text \<open>
  \<open>s.slice(a, b)\<close>: a negative index counts from the end, and both are clamped to
  the string.
\<close>

definition slice_index :: "nat \<Rightarrow> int \<Rightarrow> nat" where
  "slice_index len i = (if i < 0 then nat (max (int len + i) 0) else min (nat i) len)"

definition slice :: "'a list \<Rightarrow> int \<Rightarrow> int \<Rightarrow> 'a list" where
  "slice s a b =
     (let start = slice_index (length s) a; stop = slice_index (length s) b
      in take (stop - start) (drop start s))"

definition slice_from :: "'a list \<Rightarrow> int \<Rightarrow> 'a list" where
  "slice_from s a = slice s a (int (length s))"

text \<open>
  The white space of ECMAScript (\<open>WhiteSpace\<close> and \<open>LineTerminator\<close>): what
  \<open>\s\<close> matches and \<open>trimEnd\<close> strips; \<open>\S\<close> is its complement.
\<close>

definition WhiteSpace :: "code_unit \<Rightarrow> bool" where
  "WhiteSpace c =
     (c = 0x09 \<or> c = 0x0A \<or> c = 0x0B \<or> c = 0x0C \<or> c = 0x0D \<or> c = 0x20 \<or> c = 0xA0
      \<or> c = 0x1680 \<or> (0x2000 \<le> c \<and> c \<le> 0x200A) \<or> c = 0x2028 \<or> c = 0x2029
      \<or> c = 0x202F \<or> c = 0x205F \<or> c = 0x3000 \<or> c = 0xFEFF)"

definition NonSpace :: "code_unit \<Rightarrow> bool" where
  "NonSpace c = (\<not> WhiteSpace c)"

definition trimEnd :: "jsstring \<Rightarrow> jsstring" where
  "trimEnd s = rev (dropWhile WhiteSpace (rev s))"

text \<open>\<open>s.split(c)\<close> for a one-character separator: never empty, \<open>''.split(c)\<close> is \<open>['']\<close>.\<close>

fun str_split :: "'a \<Rightarrow> 'a list \<Rightarrow> 'a list list" where
  "str_split c [] = [[]]"
| "str_split c (x # xs) =
     (if x = c then [] # str_split c xs
      else (case str_split c xs of l # ls \<Rightarrow> (x # l) # ls | [] \<Rightarrow> [[x]]))"

text \<open>
  A template literal renders a length (a non-negative integer below \<open>2^53\<close>) in
  decimal, without leading zeros.
\<close>

definition digit_unit :: "nat \<Rightarrow> code_unit" where
  "digit_unit d = of_nat (48 + d)"

function number_toString :: "nat \<Rightarrow> jsstring" where
  "number_toString n =
     (if n < 10 then [digit_unit n]
      else number_toString (n div 10) @ [digit_unit (n mod 10)])"
  by pat_completeness auto
termination
  by (relation "measure id") auto

declare number_toString.simps [simp del]

text \<open>
  \<open>Buffer.from(s, 'ascii')\<close> keeps the low byte of every code unit (Node encodes
  \<open>'ascii'\<close> as \<open>'latin1'\<close>).
\<close>

definition ascii_encode :: "jsstring \<Rightarrow> bytes" where
  "ascii_encode s = map ucast s"

section \<open>DSSE pre-authentication encoding\<close>

text \<open>
  \<^verbatim>\<open>
  export function dssePreAuthEncoding(payloadType: string, payload: Buffer): Buffer {
    const prefix = Buffer.from(
      `DSSEv1 ${payloadType.length} ${payloadType} ${payload.length} `, 'ascii');
    return Buffer.concat([prefix, payload]);
  }
  \<close>
\<close>

definition dssePreAuthEncoding :: "jsstring \<Rightarrow> bytes \<Rightarrow> bytes" where
  "dssePreAuthEncoding payloadType payload =
     (let prefix = ascii_encode
            (js ''DSSEv1 '' @ number_toString (length payloadType) @ js '' '' @ payloadType
              @ js '' '' @ number_toString (length payload) @ js '' '')
      in prefix @ payload)"

section \<open>Base64\<close>

text \<open>
  The base64 alphabet of RFC 4648. \<open>base64_encode\<close> is \<open>buf.toString('base64')\<close>;
  \<open>base64_decode\<close> reads the characters up to the first one outside the alphabet
  (the padding) and turns every four of them into three bytes, a final two into one
  byte and a final three into two bytes: on a well-formed base64 string it is
  \<open>Buffer.from(s, 'base64')\<close>.
\<close>

definition sextet_of :: "code_unit \<Rightarrow> nat option" where
  "sextet_of c =
     (let n = unat c in
      if 65 \<le> n \<and> n \<le> 90 then Some (n - 65)
      else if 97 \<le> n \<and> n \<le> 122 then Some (n - 71)
      else if 48 \<le> n \<and> n \<le> 57 then Some (n + 4)
      else if n = 43 then Some 62
      else if n = 47 then Some 63
      else None)"

definition unit_of_sextet :: "nat \<Rightarrow> code_unit" where
  "unit_of_sextet n =
     (if n < 26 then of_nat (n + 65)
      else if n < 52 then of_nat (n + 71)
      else if n < 62 then of_nat (n - 4)
      else if n = 62 then 43
      else 47)"

fun bytes_of_sextets :: "nat list \<Rightarrow> bytes" where
  "bytes_of_sextets (a # b # c # d # r) =
     of_nat (a * 4 + b div 16) # of_nat ((b mod 16) * 16 + c div 4)
       # of_nat ((c mod 4) * 64 + d) # bytes_of_sextets r"
| "bytes_of_sextets [a, b, c] =
     [of_nat (a * 4 + b div 16), of_nat ((b mod 16) * 16 + c div 4)]"
| "bytes_of_sextets [a, b] = [of_nat (a * 4 + b div 16)]"
| "bytes_of_sextets _ = []"

definition base64_decode :: "jsstring \<Rightarrow> bytes" where
  "base64_decode s =
     bytes_of_sextets
       (map (\<lambda>c. the (sextet_of c)) (takeWhile (\<lambda>c. sextet_of c \<noteq> None) s))"

fun base64_encode :: "bytes \<Rightarrow> jsstring" where
  "base64_encode [] = []"
| "base64_encode [a] =
     (let x = unat a in [unit_of_sextet (x div 4), unit_of_sextet ((x mod 4) * 16), 61, 61])"
| "base64_encode [a, b] =
     (let x = unat a; y = unat b in
      [unit_of_sextet (x div 4), unit_of_sextet ((x mod 4) * 16 + y div 16),
       unit_of_sextet ((y mod 16) * 4), 61])"
| "base64_encode (a # b # c # r) =
     (let x = unat a; y = unat b; z = unat c in
      unit_of_sextet (x div 4) # unit_of_sextet ((x mod 4) * 16 + y div 16)
        # unit_of_sextet ((y mod 16) * 4 + z div 64) # unit_of_sextet (z mod 64)
        # base64_encode r)"

section \<open>Checkpoints (packages/verify/src/timestamp/checkpoint.ts)\<close>

text \<open>
  What the module takes from outside the sources at hand: the runtime's \<open>Buffer.from\<close> in the
  encodings \<open>base64\<close> and \<open>utf-8\<close>, \<open>BigInt\<close> (\<open>None\<close> when it throws a
  \<open>SyntaxError\<close>), \<open>new Date(Number(s) * 1000)\<close> as milliseconds, \<open>crypto.verify\<close>
  of the core package, and \<open>filterTLogAuthorities\<close> of the trust module, called with
  the target date. They are parameters of the model.
\<close>

record 'k TLogAuthority =
  logID :: bytes
  publicKey :: 'k

record 'k platform =
  Buffer_from_base64 :: "jsstring \<Rightarrow> bytes"
  Buffer_from_utf8 :: "jsstring \<Rightarrow> bytes"
  BigInt :: "jsstring \<Rightarrow> int option"
  Date_of_seconds :: "jsstring \<Rightarrow> int"
  crypto_verify :: "bytes \<Rightarrow> 'k \<Rightarrow> bytes \<Rightarrow> bool"
  filterTLogAuthorities :: "'k TLogAuthority list \<Rightarrow> int \<Rightarrow> 'k TLogAuthority list"

text \<open>
  Modelled from the spec: \<open>crypto.bufferEqual\<close> of the core package, the spec's
  \<open>constant_time_equal(a, b)\<close>: whether two buffers hold the same bytes.
\<close>

definition bufferEqual :: "bytes \<Rightarrow> bytes \<Rightarrow> bool" where
  "bufferEqual a b = (a = b)"

definition CHECKPOINT_SEPARATOR :: jsstring where
  "CHECKPOINT_SEPARATOR = [0x0A, 0x0A]"

definition TLOG_INCLUSION_PROOF_ERROR :: string where
  "TLOG_INCLUSION_PROOF_ERROR = ''TLOG_INCLUSION_PROOF_ERROR''"

record TLogSignature =
  name :: jsstring
  keyHint :: bytes
  signature :: bytes

record SignedNote =
  sn_note :: jsstring
  signatures :: "TLogSignature list"

record LogCheckpoint =
  origin :: jsstring
  logSize :: int
  logHash :: bytes
  rest :: "jsstring list"

record InclusionProof =
  ip_logIndex :: jsstring
  rootHash :: bytes
  treeSize :: jsstring
  hashes :: "bytes list"
  checkpoint_envelope :: jsstring

text \<open>
  A transparency-log entry; the 64-bit integers are decimal strings, as in the bundle.
  \<open>'p\<close> is \<open>InclusionProof option\<close> for \<open>TransparencyLogEntry\<close> and
  \<open>InclusionProof\<close> for \<open>TLogEntryWithInclusionProof\<close>.
\<close>

record 'p TLogEntry =
  logIndex :: jsstring
  logId :: bytes
  kindVersion :: "(jsstring \<times> jsstring) option"
  integratedTime :: jsstring
  inclusionPromise :: "bytes option"
  inclusionProof :: 'p
  canonicalizedBody :: bytes

type_synonym TransparencyLogEntry = "InclusionProof option TLogEntry"
type_synonym TLogEntryWithInclusionProof = "InclusionProof TLogEntry"

text \<open>
  \<open>SIGNATURE_REGEX = /\<emdash> (\S+) (\S+)\n/g\<close>. \<open>exec_at s\<close> is a match that starts
  at the first code unit of \<open>s\<close>: the two groups and what follows the match. \<open>\S+\<close>
  is greedy, and what must follow it (a space, a newline) is white space, so each
  group is the longest run of non-space code units. \<open>matchAll\<close> scans from the left
  and resumes after each match.
\<close>

definition exec_at :: "jsstring \<Rightarrow> (jsstring \<times> jsstring \<times> jsstring) option" where
  "exec_at s =
     (case s of
        dash # sp # r \<Rightarrow>
          if dash = 0x2014 \<and> sp = 0x20 then
            (let nm = takeWhile NonSpace r; r1 = dropWhile NonSpace r in
             if nm = [] then None
             else (case r1 of
                     [] \<Rightarrow> None
                   | sp2 # r2 \<Rightarrow>
                       if sp2 = 0x20 then
                         (let sg = takeWhile NonSpace r2; r3 = dropWhile NonSpace r2 in
                          if sg = [] then None
                          else (case r3 of
                                  [] \<Rightarrow> None
                                | nl # r4 \<Rightarrow> if nl = 0x0A then Some (nm, sg, r4) else None))
                       else None))
          else None
      | _ \<Rightarrow> None)"

lemma exec_at_shorter: "exec_at s = Some (nm, sg, r) \<Longrightarrow> length r < length s"
proof -
  have dw: "\<And>P (xs :: jsstring). length (dropWhile P xs) \<le> length xs"
    by (simp add: length_dropWhile_le)
  assume "exec_at s = Some (nm, sg, r)"
  then show ?thesis
    unfolding exec_at_def
    apply (auto split: list.splits if_splits simp: Let_def)
    subgoal for r1 r2
      using dw [of NonSpace r1] dw [of NonSpace r2] by simp
    done
qed

function matchAll :: "jsstring \<Rightarrow> (jsstring \<times> jsstring) list" where
  "matchAll s =
     (if s = [] then []
      else (case exec_at s of
              Some (nm, sg, r) \<Rightarrow> (nm, sg) # matchAll r
            | None \<Rightarrow> matchAll (tl s)))"
  by pat_completeness auto
termination
  by (relation "measure length") (auto simp: exec_at_shorter)

declare matchAll.simps [simp del]

text \<open>\<open>Array.from(matches, f)\<close> where \<open>f\<close> may throw: the first throw ends it.\<close>

fun map_throwing :: "('a \<Rightarrow> error + 'b) \<Rightarrow> 'a list \<Rightarrow> error + 'b list" where
  "map_throwing f [] = Inr []"
| "map_throwing f (x # xs) =
     (case f x of
        Inl e \<Rightarrow> Inl e
      | Inr y \<Rightarrow> (case map_throwing f xs of Inl e \<Rightarrow> Inl e | Inr ys \<Rightarrow> Inr (y # ys)))"

definition parse_signature :: "(jsstring \<Rightarrow> bytes) \<Rightarrow> jsstring \<times> jsstring \<Rightarrow> error + TLogSignature" where
  "parse_signature b64 m =
     (case m of (nm, sg) \<Rightarrow>
        (let sigBytes = b64 sg in
         if length sigBytes < 5 then
           Inl (VerificationError (Some TLOG_INCLUSION_PROOF_ERROR)
                  ''malformed checkpoint signature'')
         else Inr \<lparr>name = nm, keyHint = take 4 sigBytes, signature = drop 4 sigBytes\<rparr>))"

text \<open>The header and the data portion that \<open>SignedNote.fromString\<close> cuts the envelope into.\<close>

definition note_header :: "jsstring \<Rightarrow> jsstring" where
  "note_header envelope = slice envelope 0 (indexOf envelope CHECKPOINT_SEPARATOR + 1)"

definition signature_section :: "jsstring \<Rightarrow> jsstring" where
  "signature_section envelope =
     slice_from envelope (indexOf envelope CHECKPOINT_SEPARATOR + int (length CHECKPOINT_SEPARATOR))"

definition SignedNote_fromString :: "(jsstring \<Rightarrow> bytes) \<Rightarrow> jsstring \<Rightarrow> error + SignedNote" where
  "SignedNote_fromString b64 envelope =
     (if \<not> str_includes envelope CHECKPOINT_SEPARATOR then
        Inl (VerificationError (Some TLOG_INCLUSION_PROOF_ERROR) ''missing checkpoint separator'')
      else
        (let header = note_header envelope;
             data = signature_section envelope;
             matches = matchAll data
         in case map_throwing (parse_signature b64) matches of
              Inl e \<Rightarrow> Inl e
            | Inr sigs \<Rightarrow>
                if length sigs = 0 then
                  Inl (VerificationError (Some TLOG_INCLUSION_PROOF_ERROR)
                         ''no signatures found in checkpoint'')
                else Inr \<lparr>sn_note = header, signatures = sigs\<rparr>))"

definition LogCheckpoint_fromString ::
  "(jsstring \<Rightarrow> bytes) \<Rightarrow> (jsstring \<Rightarrow> int option) \<Rightarrow> jsstring \<Rightarrow> error + LogCheckpoint" where
  "LogCheckpoint_fromString b64 bigint nt =
     (let lines = str_split 0x0A (trimEnd nt) in
      if length lines < 3 then
        Inl (VerificationError (Some TLOG_INCLUSION_PROOF_ERROR)
               ''too few lines in checkpoint header'')
      else
        (case bigint (lines ! 1) of
           None \<Rightarrow> Inl SyntaxError
         | Some n \<Rightarrow>
             Inr \<lparr>origin = lines ! 0, logSize = n, logHash = b64 (lines ! 2),
                  rest = drop 3 lines\<rparr>))"

text \<open>
  \<open>signatures.every(...)\<close>: each signature is checked against the first log whose
  log ID starts with the signature's key hint.
\<close>

definition verifySignedNote :: "'k platform \<Rightarrow> SignedNote \<Rightarrow> 'k TLogAuthority list \<Rightarrow> bool" where
  "verifySignedNote P signedNote tlogs =
     (let data = Buffer_from_utf8 P (sn_note signedNote) in
      list_all
        (\<lambda>sg. case find (\<lambda>tlog. bufferEqual (take 4 (logID tlog)) (keyHint sg)) tlogs of
                None \<Rightarrow> False
              | Some tlog \<Rightarrow> crypto_verify P data (publicKey tlog) (signature sg))
        (signatures signedNote))"

definition verifyCheckpoint ::
  "'k platform \<Rightarrow> TLogEntryWithInclusionProof \<Rightarrow> 'k TLogAuthority list \<Rightarrow> error + unit" where
  "verifyCheckpoint P entry tlogs =
     (let validTLogs = filterTLogAuthorities P tlogs (Date_of_seconds P (integratedTime entry));
          iproof = inclusionProof entry
      in case SignedNote_fromString (Buffer_from_base64 P) (checkpoint_envelope iproof) of
           Inl e \<Rightarrow> Inl e
         | Inr signedNote \<Rightarrow>
             (case LogCheckpoint_fromString (Buffer_from_base64 P) (BigInt P) (sn_note signedNote) of
                Inl e \<Rightarrow> Inl e
              | Inr checkpoint \<Rightarrow>
                  if \<not> verifySignedNote P signedNote validTLogs then
                    Inl (VerificationError (Some TLOG_INCLUSION_PROOF_ERROR)
                           ''invalid checkpoint signature'')
                  else if \<not> bufferEqual (logHash checkpoint) (rootHash iproof) then
                    Inl (VerificationError (Some TLOG_INCLUSION_PROOF_ERROR)
                           ''root hash mismatch'')
                  else Inr ()))"

text \<open>
  What it means for a string to contain a line of the form of \<open>SIGNATURE_REGEX\<close>,
  stated without the matcher: an em dash, a space, a non-empty run of non-space code
  units, a space, another such run, and a newline.
\<close>

definition has_signature_line :: "jsstring \<Rightarrow> bool" where
  "has_signature_line d =
     (\<exists>pre nm sg post.
        d = pre @ [0x2014, 0x20] @ nm @ [0x20] @ sg @ [0x0A] @ post
        \<and> nm \<noteq> [] \<and> sg \<noteq> [] \<and> list_all NonSpace nm \<and> list_all NonSpace sg)"

subsection \<open>A test platform and two checkpoints\<close>

text \<open>
  A platform to run the module on concrete envelopes: the base64 decoder above, ASCII
  for UTF-8 (they agree on ASCII notes), decimal strings for \<open>BigInt\<close> and
  \<open>Number\<close>, every log valid at every date, and a toy signature scheme whose keys
  are bytes and in which the signature of any data under the key \<open>k\<close> is the one
  byte \<open>k\<close>.
\<close>

definition decimal_value :: "jsstring \<Rightarrow> int option" where
  "decimal_value s =
     (if s \<noteq> [] \<and> list_all (\<lambda>c. 48 \<le> c \<and> c \<le> 57) s
      then Some (foldl (\<lambda>a c. 10 * a + (uint c - 48)) 0 s) else None)"

definition test_platform :: "byte platform" where
  "test_platform =
     \<lparr>Buffer_from_base64 = base64_decode,
      Buffer_from_utf8 = ascii_encode,
      BigInt = decimal_value,
      Date_of_seconds = (\<lambda>s. case decimal_value s of Some n \<Rightarrow> n * 1000 | None \<Rightarrow> 0),
      crypto_verify = (\<lambda>data key sg. sg = [key]),
      filterTLogAuthorities = (\<lambda>tlogs date. tlogs)\<rparr>"

text \<open>
  The note \<open>log\n1\nAAAA\n\<close> (log hash \<open>00 00 00\<close>) with the signature line
  \<open>\<emdash> a AAAAAAE=\<close> (key hint \<open>00 00 00 00\<close>, signature \<open>01\<close>), and the same note
  with a second line \<open>\<emdash> b AQEBAQE=\<close> (key hint \<open>01 01 01 01\<close>, signature \<open>01\<close>).
  The only trusted log has a log ID that starts with \<open>00 00 00 00\<close> and the key \<open>1\<close>.
\<close>

definition one_line_envelope :: jsstring where
  "one_line_envelope =
     js ''log\<newline>1\<newline>AAAA\<newline>\<newline>'' @ [0x2014] @ js '' a AAAAAAE=\<newline>''"

definition two_line_envelope :: jsstring where
  "two_line_envelope =
     js ''log\<newline>1\<newline>AAAA\<newline>\<newline>'' @ [0x2014] @ js '' a AAAAAAE=\<newline>''
       @ [0x2014] @ js '' b AQEBAQE=\<newline>''"

definition short_envelope :: jsstring where
  "short_envelope = js ''log\<newline>\<newline>'' @ [0x2014] @ js '' a AAAA\<newline>''"

definition checkpoint_entry :: "jsstring \<Rightarrow> TLogEntryWithInclusionProof" where
  "checkpoint_entry envelope =
     \<lparr>logIndex = js ''0'', logId = [0, 0, 0, 0, 9], kindVersion = None,
      integratedTime = js ''0'', inclusionPromise = None,
      inclusionProof = \<lparr>ip_logIndex = js ''0'', rootHash = [0, 0, 0], treeSize = js ''1'',
                          hashes = [], checkpoint_envelope = envelope\<rparr>,
      canonicalizedBody = []\<rparr>"

definition one_log :: "byte TLogAuthority list" where
  "one_log = [\<lparr>logID = [0, 0, 0, 0, 9], publicKey = 1\<rparr>]"

section \<open>Bundles and options of the client package\<close>

text \<open>
  The tagged unions of the bundle are datatypes, one constructor for each \<open>$case\<close>; a
  union that may be \<open>undefined\<close> (the code reads it with \<open>?.\<close>) is an
  \<open>option\<close>. A certificate is its \<open>rawBytes\<close>.
\<close>

datatype HashAlgorithm = HASH_ALGORITHM_UNSPECIFIED | SHA2_256

record MessageDigest =
  algorithm :: HashAlgorithm
  digest :: bytes

record MessageSignature =
  messageDigest :: MessageDigest
  msg_signature :: bytes

record Signature =
  sig :: bytes
  keyid :: jsstring

record Envelope =
  payload :: bytes
  payloadType :: jsstring
  dsse_signatures :: "Signature list"

datatype BundleContent =
    Case_messageSignature MessageSignature
  | Case_dsseEnvelope Envelope

datatype VerificationMaterialContent =
    Case_x509CertificateChain "bytes list"
  | Case_publicKey jsstring
  | Case_certificate bytes

record VerificationMaterial =
  vm_content :: "VerificationMaterialContent option"
  tlogEntries :: "TransparencyLogEntry list"
  timestampVerificationData :: "bytes list option"

record Bundle =
  mediaType :: jsstring
  verificationMaterial :: VerificationMaterial
  content :: "BundleContent option"

record TlogOptions =
  disable :: bool
  performOnlineVerification :: bool
  threshold :: int

record CtlogOptions =
  ct_detachedSct :: bool
  ct_disable :: bool
  ct_threshold :: int

datatype Signers = Case_certificateIdentities | Case_publicKeys

record ArtifactVerificationOptions =
  tlogOptions :: TlogOptions
  ctlogOptions :: "CtlogOptions option"
  signers :: "Signers option"

record 't TrustedRoot =
  tlogs :: "'t list"

text \<open>
  What the client's verifier takes from modules whose sources are not at hand, as
  parameters of the model: \<open>pem.fromDER\<close>; \<open>crypto.createPublicKey\<close> (\<open>None\<close> when
  it throws, as the \<open>try\<close>/\<open>catch\<close> around one of its two calls expects),
  \<open>crypto.hash\<close>, \<open>crypto.verifyBlob\<close> (the key is \<open>None\<close> when
  \<open>getPublicKey\<close> returned \<open>undefined\<close>); \<open>dsse.preAuthEncoding\<close>;
  \<open>ca.verifySigningCertificate\<close> and the guard \<open>isCAVerificationOptions\<close>;
  \<open>verifyTLogBody\<close> and \<open>verifyTLogSET\<close>; \<open>x509Certificate.parse\<close> and
  \<open>validForDate\<close> of a parsed certificate \<open>'c\<close>; and
  \<open>new Date(Number(s) * 1000)\<close> in milliseconds.
\<close>

record ('k, 'c, 't) collaborators =
  pem_fromDER :: "bytes \<Rightarrow> jsstring"
  crypto_createPublicKey :: "jsstring + bytes \<Rightarrow> 'k option"
  crypto_hash :: "bytes \<Rightarrow> bytes"
  crypto_verifyBlob :: "bytes \<Rightarrow> 'k option \<Rightarrow> bytes \<Rightarrow> bool"
  dsse_preAuthEncoding :: "jsstring \<Rightarrow> bytes \<Rightarrow> bytes"
  ca_verifySigningCertificate ::
    "Bundle \<Rightarrow> 't TrustedRoot \<Rightarrow> ArtifactVerificationOptions \<Rightarrow> error + unit"
  isCAVerificationOptions :: "ArtifactVerificationOptions \<Rightarrow> bool"
  verifyTLogBody :: "TransparencyLogEntry \<Rightarrow> BundleContent option \<Rightarrow> bool"
  verifyTLogSET :: "TransparencyLogEntry \<Rightarrow> 't list \<Rightarrow> bool"
  x509Certificate_parse :: "bytes \<Rightarrow> error + 'c"
  validForDate :: "'c \<Rightarrow> int \<Rightarrow> bool"
  Date_from_seconds :: "jsstring \<Rightarrow> int"

text \<open>
  Modelled from the spec: the type guard \<open>isBundleWithCertificateChain\<close> of the
  bundle package, which is not among the sources: the verification material is the
  variant with the discriminator \<open>x509CertificateChain\<close> (sections 3 and 9); after the
  guard, the code reads \<open>content.x509CertificateChain\<close>.
\<close>

definition isBundleWithCertificateChain :: "Bundle \<Rightarrow> bool" where
  "isBundleWithCertificateChain bundle =
     (case vm_content (verificationMaterial bundle) of
        Some (Case_x509CertificateChain certs) \<Rightarrow> True
      | _ \<Rightarrow> False)"

section \<open>Transparency-log entries (packages/client/src/tlog/verify/index.ts)\<close>

definition isTransparencyLogEntryWithInclusionPromise :: "TransparencyLogEntry \<Rightarrow> bool" where
  "isTransparencyLogEntryWithInclusionPromise entry = (inclusionPromise entry \<noteq> None)"

text \<open>
  \<open>certificates[0].rawBytes\<close> of an empty chain reads a property of \<open>undefined\<close>.
\<close>

definition signingCertificate :: "('k, 'c, 't) collaborators \<Rightarrow> Bundle \<Rightarrow> error + 'c option" where
  "signingCertificate C bundle =
     (case vm_content (verificationMaterial bundle) of
        Some (Case_x509CertificateChain certs) \<Rightarrow>
          (case certs of
             [] \<Rightarrow> Inl TypeError
           | signingCert # _ \<Rightarrow>
               (case x509Certificate_parse C signingCert of
                  Inl e \<Rightarrow> Inl e
                | Inr cert \<Rightarrow> Inr (Some cert)))
      | _ \<Rightarrow> Inr None)"

definition verifyTLogEntryOffline ::
  "('k, 'c, 't) collaborators \<Rightarrow> TransparencyLogEntry \<Rightarrow> BundleContent option \<Rightarrow> 't list
     \<Rightarrow> 'c option \<Rightarrow> bool" where
  "verifyTLogEntryOffline C entry bundleContent tlgs signingCert =
     (let verifyTLogIntegrationTime =
            (case signingCert of
               Some cert \<Rightarrow> validForDate C cert (Date_from_seconds C (integratedTime entry))
             | None \<Rightarrow> True);
          verifyTLogSignedEntryTimestamp =
            (if isTransparencyLogEntryWithInclusionPromise entry then verifyTLogSET C entry tlgs
             else False)
      in verifyTLogBody C entry bundleContent
         \<and> verifyTLogSignedEntryTimestamp
         \<and> verifyTLogIntegrationTime)"

definition verifyTLogEntries ::
  "('k, 'c, 't) collaborators \<Rightarrow> Bundle \<Rightarrow> 't TrustedRoot \<Rightarrow> TlogOptions \<Rightarrow> error + unit" where
  "verifyTLogEntries C bundle root options =
     (if performOnlineVerification options then
        Inl (VerificationError None ''Online verification not implemented'')
      else
        (case signingCertificate C bundle of
           Inl e \<Rightarrow> Inl e
         | Inr signingCert \<Rightarrow>
             (let verifiedEntries =
                    filter (\<lambda>entry. verifyTLogEntryOffline C entry (content bundle)
                                      (tlogs root) signingCert)
                      (tlogEntries (verificationMaterial bundle))
              in if int (length verifiedEntries) < threshold options then
                   Inl (VerificationError None ''tlog verification failed'')
                 else Inr ())))"

section \<open>The verifier (packages/client/src/verify.ts)\<close>

text \<open>
  A \<open>KeySelector\<close> returns a PEM string, a buffer or \<open>undefined\<close>. After
  \<open>keySelector(hint)\<close>, \<open>!key\<close> holds for \<open>undefined\<close> and for the empty string.
  The \<open>switch\<close> of \<open>getPublicKey\<close> has no default: with no verification material,
  or one of another case (the single certificate of a v0.3 bundle), it returns
  \<open>undefined\<close>. Likewise \<open>verifyArtifactSignature\<close> verifies nothing when the bundle
  has no content.
\<close>

record 't Verifier =
  trustedRoot :: "'t TrustedRoot"
  keySelector :: "jsstring \<Rightarrow> (jsstring + bytes) option"

definition getPublicKeyFromCertificateChain ::
  "('k, 'c, 't) collaborators \<Rightarrow> bytes list \<Rightarrow> error + 'k option" where
  "getPublicKeyFromCertificateChain C certificates =
     (case certificates of
        [] \<Rightarrow> Inl TypeError
      | leaf # _ \<Rightarrow>
          (case crypto_createPublicKey C (Inl (pem_fromDER C leaf)) of
             None \<Rightarrow> Inl ForeignError
           | Some key \<Rightarrow> Inr (Some key)))"

definition getPublicKeyFromHint ::
  "('k, 'c, 't) collaborators \<Rightarrow> jsstring \<Rightarrow> (jsstring \<Rightarrow> (jsstring + bytes) option)
     \<Rightarrow> error + 'k option" where
  "getPublicKeyFromHint C hint selector =
     (case selector hint of
        None \<Rightarrow> Inl (VerificationError None ''no public key found for signature verification'')
      | Some key \<Rightarrow>
          if key = Inl [] then
            Inl (VerificationError None ''no public key found for signature verification'')
          else
            (case crypto_createPublicKey C key of
               None \<Rightarrow> Inl (VerificationError None ''invalid public key'')
             | Some k \<Rightarrow> Inr (Some k)))"

definition getPublicKey ::
  "'t Verifier \<Rightarrow> ('k, 'c, 't) collaborators \<Rightarrow> Bundle \<Rightarrow> error + 'k option" where
  "getPublicKey V C bundle =
     (case vm_content (verificationMaterial bundle) of
        Some (Case_x509CertificateChain certs) \<Rightarrow> getPublicKeyFromCertificateChain C certs
      | Some (Case_publicKey hint) \<Rightarrow> getPublicKeyFromHint C hint (keySelector V)
      | _ \<Rightarrow> Inr None)"

definition verifyMessageSignature ::
  "('k, 'c, 't) collaborators \<Rightarrow> bytes \<Rightarrow> MessageSignature \<Rightarrow> 'k option \<Rightarrow> error + unit" where
  "verifyMessageSignature C data ms key =
     (let calculatedDigest = crypto_hash C data in
      if calculatedDigest \<noteq> digest (messageDigest ms) then
        Inl (VerificationError None ''message digest verification failed'')
      else if \<not> crypto_verifyBlob C data key (msg_signature ms) then
        Inl (VerificationError None ''artifact signature verification failed'')
      else Inr ())"

text \<open>
  \<open>envelope.signatures[0].sig\<close> of an envelope without signatures reads a property
  of \<open>undefined\<close>.
\<close>

definition verifyDSSESignature ::
  "('k, 'c, 't) collaborators \<Rightarrow> Envelope \<Rightarrow> 'k option \<Rightarrow> error + unit" where
  "verifyDSSESignature C envelope key =
     (let data = dsse_preAuthEncoding C (payloadType envelope) (payload envelope) in
      case dsse_signatures envelope of
        [] \<Rightarrow> Inl TypeError
      | first # _ \<Rightarrow>
          if \<not> crypto_verifyBlob C data key (sig first) then
            Inl (VerificationError None ''artifact signature verification failed'')
          else Inr ())"

definition verifyArtifactSignature ::
  "'t Verifier \<Rightarrow> ('k, 'c, 't) collaborators \<Rightarrow> Bundle \<Rightarrow> bytes option \<Rightarrow> error + unit" where
  "verifyArtifactSignature V C bundle data =
     (case getPublicKey V C bundle of
        Inl e \<Rightarrow> Inl e
      | Inr key \<Rightarrow>
          (case content bundle of
             Some (Case_messageSignature ms) \<Rightarrow>
               (case data of
                  None \<Rightarrow>
                    Inl (VerificationError None
                           ''no data provided for message signature verification'')
                | Some d \<Rightarrow> verifyMessageSignature C d ms key)
           | Some (Case_dsseEnvelope envelope) \<Rightarrow> verifyDSSESignature C envelope key
           | None \<Rightarrow> Inr ()))"

definition verifySigningCertificate ::
  "'t Verifier \<Rightarrow> ('k, 'c, 't) collaborators \<Rightarrow> Bundle \<Rightarrow> ArtifactVerificationOptions
     \<Rightarrow> error + unit" where
  "verifySigningCertificate V C bundle options =
     (if \<not> isCAVerificationOptions C options then
        Inl (VerificationError None ''no trusted certificates provided for verification'')
      else ca_verifySigningCertificate C bundle (trustedRoot V) options)"

definition verify ::
  "'t Verifier \<Rightarrow> ('k, 'c, 't) collaborators \<Rightarrow> Bundle \<Rightarrow> ArtifactVerificationOptions
     \<Rightarrow> bytes option \<Rightarrow> error + unit" where
  "verify V C bundle options data =
     (case verifyArtifactSignature V C bundle data of
        Inl e \<Rightarrow> Inl e
      | Inr _ \<Rightarrow>
          (case (if isBundleWithCertificateChain bundle
                 then verifySigningCertificate V C bundle options else Inr ()) of
             Inl e \<Rightarrow> Inl e
           | Inr _ \<Rightarrow>
               if disable (tlogOptions options) = False then
                 verifyTLogEntries C bundle (trustedRoot V) (tlogOptions options)
               else Inr ()))"

subsection \<open>Test collaborators and bundles\<close>

text \<open>
  Collaborators to run the verifier on concrete bundles. A key is a byte: the first
  byte of a PEM string or of a DER buffer, and there is no key in an empty one. The
  signature of any data under the key \<open>k\<close> is the one byte \<open>k\<close>, and the digest
  of data is its first byte. A certificate is two bytes, its \<open>NotBefore\<close> and
  \<open>NotAfter\<close> in seconds, valid in the half-open window the spec gives; anything else
  does not parse. Log bodies and SETs always verify, and so does the certificate chain.
  \<open>isCAVerificationOptions\<close> is as its tests have it: the options have
  \<open>ctlogOptions\<close>, and \<open>signers\<close> is absent or \<open>certificateIdentities\<close>.
\<close>

definition test_collaborators :: "(byte, int \<times> int, unit) collaborators" where
  "test_collaborators =
     \<lparr>pem_fromDER = map ucast,
      crypto_createPublicKey =
        (\<lambda>key. case key of
                 Inl pem \<Rightarrow> (case pem of [] \<Rightarrow> None | c # _ \<Rightarrow> Some (ucast c))
               | Inr der \<Rightarrow> (case der of [] \<Rightarrow> None | b # _ \<Rightarrow> Some b)),
      crypto_hash = take 1,
      crypto_verifyBlob = (\<lambda>data key sg. case key of None \<Rightarrow> False | Some k \<Rightarrow> sg = [k]),
      dsse_preAuthEncoding = dssePreAuthEncoding,
      ca_verifySigningCertificate = (\<lambda>bundle root options. Inr ()),
      isCAVerificationOptions =
        (\<lambda>options. ctlogOptions options \<noteq> None
           \<and> (signers options = None \<or> signers options = Some Case_certificateIdentities)),
      verifyTLogBody = (\<lambda>entry content. True),
      verifyTLogSET = (\<lambda>entry logs. True),
      x509Certificate_parse =
        (\<lambda>der. case der of
                 [notBefore, notAfter] \<Rightarrow> Inr (uint notBefore * 1000, uint notAfter * 1000)
               | _ \<Rightarrow> Inl ForeignError),
      validForDate = (\<lambda>cert date. fst cert \<le> date \<and> date < snd cert),
      Date_from_seconds = (\<lambda>s. case decimal_value s of Some n \<Rightarrow> n * 1000 | None \<Rightarrow> 0)\<rparr>"

text \<open>A verifier whose key selector knows the hint \<open>known\<close> only (a DER key, byte 1).\<close>

definition test_verifier :: "unit Verifier" where
  "test_verifier =
     \<lparr>trustedRoot = \<lparr>tlogs = []\<rparr>,
      keySelector = (\<lambda>hint. if hint = js ''known'' then Some (Inr [1]) else None)\<rparr>"

definition promise_entry :: "jsstring \<Rightarrow> jsstring \<Rightarrow> TransparencyLogEntry" where
  "promise_entry index time =
     \<lparr>logIndex = index, logId = [0], kindVersion = None, integratedTime = time,
      inclusionPromise = Some [0], inclusionProof = None, canonicalizedBody = []\<rparr>"

text \<open>A message-signature bundle (digest \<open>h\<close>, signature \<open>01\<close>) and a DSSE bundle.\<close>

definition message_bundle ::
  "VerificationMaterialContent option \<Rightarrow> TransparencyLogEntry list \<Rightarrow> Bundle" where
  "message_bundle material entries =
     \<lparr>mediaType = js ''application/vnd.dev.sigstore.bundle+json;version=0.1'',
      verificationMaterial =
        \<lparr>vm_content = material, tlogEntries = entries, timestampVerificationData = None\<rparr>,
      content = Some (Case_messageSignature
                  \<lparr>messageDigest = \<lparr>algorithm = SHA2_256, digest = [104]\<rparr>,
                   msg_signature = [1]\<rparr>)\<rparr>"

definition dsse_bundle :: "Signature list \<Rightarrow> Bundle" where
  "dsse_bundle sigs =
     \<lparr>mediaType = js ''application/vnd.dev.sigstore.bundle+json;version=0.1'',
      verificationMaterial =
        \<lparr>vm_content = Some (Case_publicKey (js ''known'')), tlogEntries = [],
         timestampVerificationData = None\<rparr>,
      content = Some (Case_dsseEnvelope
                  \<lparr>payload = bytes_of ''payload'',
                   payloadType = js ''application/vnd.in-toto+json'',
                   dsse_signatures = sigs\<rparr>)\<rparr>"

definition test_options :: "int \<Rightarrow> ArtifactVerificationOptions" where
  "test_options n =
     \<lparr>tlogOptions = \<lparr>disable = False, performOnlineVerification = False, threshold = n\<rparr>,
      ctlogOptions = Some \<lparr>ct_detachedSct = False, ct_disable = False, ct_threshold = 1\<rparr>,
      signers = None\<rparr>"

text \<open>The integrated time of an entry is within the validity window of a certificate.\<close>

definition in_window :: "('k, 'c, 't) collaborators \<Rightarrow> 'c \<Rightarrow> TransparencyLogEntry \<Rightarrow> bool" where
  "in_window C cert entry = validForDate C cert (Date_from_seconds C (integratedTime entry))"

section \<open>The verifier of the verify package: timestamps (modelled from the spec)\<close>

text \<open>
  Modelled from the spec: the log index of an entry as the data model has it (section 3,
  big integers: \<open>log_index\<close> is stored as a 64-bit integer, parsed from the decimal
  string of the JSON form); \<open>None\<close> for a string that is not a decimal number. The
  Verifier of packages/verify is not among the sources; its test is.
\<close>

definition parse_log_index :: "jsstring \<Rightarrow> int option" where
  "parse_log_index s =
     (if s \<noteq> [] \<and> list_all (\<lambda>c. 48 \<le> c \<and> c \<le> 57) s
      then Some (foldl (\<lambda>a c. 10 * a + (uint c - 48)) 0 s) else None)"

text \<open>
  Modelled from the spec: whether two index strings are the same log index: they denote
  the same integer (\<open>1\<close> and \<open>01\<close> do), or, for strings that denote none, they are the
  same string, so that a copy of an entry always has the index of the entry.
\<close>

definition same_log_index :: "jsstring \<Rightarrow> jsstring \<Rightarrow> bool" where
  "same_log_index a b =
     (case (parse_log_index a, parse_log_index b) of
        (Some m, Some n) \<Rightarrow> m = n
      | _ \<Rightarrow> a = b)"

text \<open>
  Modelled from the spec: whether two log entries are the same entry, in the words of
  step 3 of the orchestrator (section 4.9): the same \<open>log_id + log_index\<close>.
\<close>

definition same_log_entry :: "'p TLogEntry \<Rightarrow> 'p TLogEntry \<Rightarrow> bool" where
  "same_log_entry e e' = (logId e = logId e' \<and> same_log_index (logIndex e) (logIndex e'))"

text \<open>
  Modelled from the spec: the check for duplicate log entries of step 3 of the
  orchestrator, missing with the Verifier of packages/verify: some entry of the list is
  the same entry as a later one.
\<close>

fun has_duplicate_entries :: "'p TLogEntry list \<Rightarrow> bool" where
  "has_duplicate_entries [] = False"
| "has_duplicate_entries (e # es) = (list_ex (same_log_entry e) es \<or> has_duplicate_entries es)"

text \<open>
  Modelled from the spec: steps 3 and 4 of the orchestrator (section 4.9), missing with
  the Verifier of packages/verify. Every log entry and every RFC3161 token is verified
  (\<open>entry_time\<close> and \<open>token_time\<close> give the verified time, \<open>None\<close> for an invalid
  one); the invalid ones are discarded; duplicate log entries are rejected with
  \<open>TIMESTAMP_ERROR\<close>; then the valid timestamps of each kind are counted against the
  thresholds, and either failure is a \<open>TIMESTAMP_ERROR\<close>. An error is its code.
\<close>

definition verify_timestamps ::
  "('p TLogEntry \<Rightarrow> int option) \<Rightarrow> ('tok \<Rightarrow> int option) \<Rightarrow> nat \<Rightarrow> nat
     \<Rightarrow> 'p TLogEntry list \<Rightarrow> 'tok list \<Rightarrow> string + int list" where
  "verify_timestamps entry_time token_time tlog_threshold tsa_threshold entries tokens =
     (let tlog_times = List.map_filter entry_time entries;
          tsa_times = List.map_filter token_time tokens
      in if has_duplicate_entries entries then Inl ''TIMESTAMP_ERROR''
         else if length tlog_times < tlog_threshold then Inl ''TIMESTAMP_ERROR''
         else if length tsa_times < tsa_threshold then Inl ''TIMESTAMP_ERROR''
         else Inr (tlog_times @ tsa_times))"


section \<open>The JSON form of a bundle (modelled from the spec)\<close>

text \<open>
  The serialized types, as the declarations of \<open>SerializedBundle\<close> have them: every
  binary field is a base64 string, and the 64-bit integers stay the strings they are.
\<close>

record SerializedInclusionProof =
  ser_logIndex :: jsstring
  ser_rootHash :: jsstring
  ser_treeSize :: jsstring
  ser_hashes :: "jsstring list"
  ser_checkpoint :: jsstring

record SerializedTLogEntry =
  ser_entry_logIndex :: jsstring
  ser_logId :: jsstring
  ser_kindVersion :: "(jsstring \<times> jsstring) option"
  ser_integratedTime :: jsstring
  ser_inclusionPromise :: "jsstring option"
  ser_inclusionProof :: "SerializedInclusionProof option"
  ser_canonicalizedBody :: jsstring

record SerializedMessageSignature =
  ser_messageDigest :: "(jsstring \<times> jsstring) option"
  ser_signature :: jsstring

record SerializedEnvelope =
  ser_payload :: jsstring
  ser_payloadType :: jsstring
  ser_signatures :: "(jsstring \<times> jsstring) list"

datatype SerializedContent =
    Ser_dsseEnvelope SerializedEnvelope
  | Ser_messageSignature SerializedMessageSignature

datatype SerializedMaterial =
    Ser_x509CertificateChain "jsstring list"
  | Ser_publicKey jsstring
  | Ser_certificate jsstring

record SerializedBundle =
  ser_mediaType :: jsstring
  ser_material :: "SerializedMaterial option"
  ser_tlogEntries :: "SerializedTLogEntry list"
  ser_timestampVerificationData :: "jsstring list option"
  ser_content :: "SerializedContent option"

text \<open>
  Modelled from the spec: \<open>hashAlgorithmToJSON\<close> of the protobuf specs, which is
  not among the sources: the name of the algorithm.
\<close>

fun hashAlgorithmToJSON :: "HashAlgorithm \<Rightarrow> jsstring" where
  "hashAlgorithmToJSON HASH_ALGORITHM_UNSPECIFIED = js ''HASH_ALGORITHM_UNSPECIFIED''"
| "hashAlgorithmToJSON SHA2_256 = js ''SHA2_256''"

text \<open>
  Modelled from the spec: \<open>hashAlgorithmFromJSON\<close> of the protobuf specs, which is
  not among the sources: the algorithm of a name, if it is one.
\<close>

definition hashAlgorithmFromJSON :: "jsstring \<Rightarrow> HashAlgorithm option" where
  "hashAlgorithmFromJSON s =
     (if s = js ''HASH_ALGORITHM_UNSPECIFIED'' then Some HASH_ALGORITHM_UNSPECIFIED
      else if s = js ''SHA2_256'' then Some SHA2_256
      else None)"

text \<open>
  Modelled from the spec: \<open>bundleToJSON\<close> of the bundle package (serialized.ts is
  not among the sources; its tests are), on an inclusion proof. All binary fields are
  base64-encoded (section 6.1); the strings, among them the integers that may exceed
  \<open>2^53\<close>, are kept.
\<close>

definition inclusionProofToJSON :: "InclusionProof \<Rightarrow> SerializedInclusionProof" where
  "inclusionProofToJSON p =
     \<lparr>ser_logIndex = ip_logIndex p, ser_rootHash = base64_encode (rootHash p),
      ser_treeSize = treeSize p, ser_hashes = map base64_encode (hashes p),
      ser_checkpoint = checkpoint_envelope p\<rparr>"

text \<open>Modelled from the spec: \<open>bundleToJSON\<close> (not among the sources), on a log entry.\<close>

definition tlogEntryToJSON :: "TransparencyLogEntry \<Rightarrow> SerializedTLogEntry" where
  "tlogEntryToJSON e =
     \<lparr>ser_entry_logIndex = logIndex e, ser_logId = base64_encode (logId e),
      ser_kindVersion = kindVersion e, ser_integratedTime = integratedTime e,
      ser_inclusionPromise = map_option base64_encode (inclusionPromise e),
      ser_inclusionProof = map_option inclusionProofToJSON (inclusionProof e),
      ser_canonicalizedBody = base64_encode (canonicalizedBody e)\<rparr>"

text \<open>
  Modelled from the spec: \<open>bundleToJSON\<close> (not among the sources), on the verification
  material.
\<close>

fun materialToJSON :: "VerificationMaterialContent \<Rightarrow> SerializedMaterial" where
  "materialToJSON (Case_x509CertificateChain certs) =
     Ser_x509CertificateChain (map base64_encode certs)"
| "materialToJSON (Case_publicKey hint) = Ser_publicKey hint"
| "materialToJSON (Case_certificate cert) = Ser_certificate (base64_encode cert)"

text \<open>Modelled from the spec: \<open>bundleToJSON\<close> (not among the sources), on the content.\<close>

fun contentToJSON :: "BundleContent \<Rightarrow> SerializedContent" where
  "contentToJSON (Case_messageSignature ms) =
     Ser_messageSignature
       \<lparr>ser_messageDigest =
          Some (hashAlgorithmToJSON (algorithm (messageDigest ms)),
                base64_encode (digest (messageDigest ms))),
        ser_signature = base64_encode (msg_signature ms)\<rparr>"
| "contentToJSON (Case_dsseEnvelope env) =
     Ser_dsseEnvelope
       \<lparr>ser_payload = base64_encode (payload env), ser_payloadType = payloadType env,
        ser_signatures = map (\<lambda>s. (base64_encode (sig s), keyid s)) (dsse_signatures env)\<rparr>"

text \<open>Modelled from the spec: \<open>bundleToJSON\<close> of the bundle package (not among the sources).\<close>

definition bundleToJSON :: "Bundle \<Rightarrow> SerializedBundle" where
  "bundleToJSON b =
     \<lparr>ser_mediaType = mediaType b,
      ser_material = map_option materialToJSON (vm_content (verificationMaterial b)),
      ser_tlogEntries = map tlogEntryToJSON (tlogEntries (verificationMaterial b)),
      ser_timestampVerificationData =
        map_option (map base64_encode) (timestampVerificationData (verificationMaterial b)),
      ser_content = map_option contentToJSON (content b)\<rparr>"

text \<open>
  Modelled from the spec: \<open>bundleFromJSON\<close> of the bundle package (not among the
  sources; its tests are), on an inclusion proof: the base64 fields are decoded.
\<close>

definition inclusionProofFromJSON :: "SerializedInclusionProof \<Rightarrow> InclusionProof" where
  "inclusionProofFromJSON p =
     \<lparr>ip_logIndex = ser_logIndex p, rootHash = base64_decode (ser_rootHash p),
      treeSize = ser_treeSize p, hashes = map base64_decode (ser_hashes p),
      checkpoint_envelope = ser_checkpoint p\<rparr>"

text \<open>Modelled from the spec: \<open>bundleFromJSON\<close> (not among the sources), on a log entry.\<close>

definition tlogEntryFromJSON :: "SerializedTLogEntry \<Rightarrow> TransparencyLogEntry" where
  "tlogEntryFromJSON e =
     \<lparr>logIndex = ser_entry_logIndex e, logId = base64_decode (ser_logId e),
      kindVersion = ser_kindVersion e, integratedTime = ser_integratedTime e,
      inclusionPromise = map_option base64_decode (ser_inclusionPromise e),
      inclusionProof = map_option inclusionProofFromJSON (ser_inclusionProof e),
      canonicalizedBody = base64_decode (ser_canonicalizedBody e)\<rparr>"

text \<open>
  Modelled from the spec: \<open>bundleFromJSON\<close> (not among the sources), on the verification
  material.
\<close>

fun materialFromJSON :: "SerializedMaterial \<Rightarrow> VerificationMaterialContent" where
  "materialFromJSON (Ser_x509CertificateChain certs) =
     Case_x509CertificateChain (map base64_decode certs)"
| "materialFromJSON (Ser_publicKey hint) = Case_publicKey hint"
| "materialFromJSON (Ser_certificate cert) = Case_certificate (base64_decode cert)"

text \<open>
  Modelled from the spec: \<open>bundleFromJSON\<close> (not among the sources), on the content;
  \<open>None\<close> when the message digest is missing or its algorithm is not one.
\<close>

fun contentFromJSON :: "SerializedContent \<Rightarrow> BundleContent option" where
  "contentFromJSON (Ser_messageSignature ms) =
     (case ser_messageDigest ms of
        None \<Rightarrow> None
      | Some (alg, dg) \<Rightarrow>
          (case hashAlgorithmFromJSON alg of
             None \<Rightarrow> None
           | Some a \<Rightarrow>
               Some (Case_messageSignature
                       \<lparr>messageDigest = \<lparr>algorithm = a, digest = base64_decode dg\<rparr>,
                        msg_signature = base64_decode (ser_signature ms)\<rparr>)))"
| "contentFromJSON (Ser_dsseEnvelope env) =
     Some (Case_dsseEnvelope
             \<lparr>payload = base64_decode (ser_payload env), payloadType = ser_payloadType env,
              dsse_signatures =
                map (\<lambda>(s, k). \<lparr>sig = base64_decode s, keyid = k\<rparr>) (ser_signatures env)\<rparr>)"

text \<open>
  Modelled from the spec: the schema version of a media type (section 6.1),
  \<open>application/vnd.dev.sigstore.bundle+json;version=0.1\<close>, \<open>0.2\<close> or \<open>0.3\<close>; the
  bundle package's own check of the media type is not among the sources.
\<close>

definition bundle_version :: "jsstring \<Rightarrow> nat option" where
  "bundle_version mt =
     (if mt = js ''application/vnd.dev.sigstore.bundle+json;version=0.1'' then Some 1
      else if mt = js ''application/vnd.dev.sigstore.bundle+json;version=0.2'' then Some 2
      else if mt = js ''application/vnd.dev.sigstore.bundle+json;version=0.3'' then Some 3
      else None)"

text \<open>
  Modelled from the spec: the invariants of a bundle (section 3), which the validation
  of the bundle package (not among the sources) asserts: a media type of version 0.1, 0.2
  or 0.3; exactly one variant of verification material and of content; a DSSE envelope
  has at least one signature; a certificate chain only in versions 0.1 and 0.2, a single
  certificate only in version 0.3; in a v0.1 bundle every log entry has its SET, in a
  later one every log entry has its inclusion proof.
\<close>

definition well_formed_bundle :: "Bundle \<Rightarrow> bool" where
  "well_formed_bundle b =
     (case bundle_version (mediaType b) of
        None \<Rightarrow> False
      | Some v \<Rightarrow>
          (case vm_content (verificationMaterial b) of
             None \<Rightarrow> False
           | Some (Case_x509CertificateChain certs) \<Rightarrow> v \<le> 2
           | Some (Case_certificate cert) \<Rightarrow> v = 3
           | Some (Case_publicKey hint) \<Rightarrow> True)
          \<and> (case content b of
               None \<Rightarrow> False
             | Some (Case_dsseEnvelope env) \<Rightarrow> dsse_signatures env \<noteq> []
             | Some (Case_messageSignature ms) \<Rightarrow> True)
          \<and> (if v = 1
              then list_all (\<lambda>e. inclusionPromise e \<noteq> None)
                     (tlogEntries (verificationMaterial b))
              else list_all (\<lambda>e. inclusionProof e \<noteq> None)
                     (tlogEntries (verificationMaterial b))))"

text \<open>
  Modelled from the spec: \<open>bundleFromJSON\<close> of the bundle package (not among the
  sources): the fields are decoded, and a bundle that is not well formed is refused.
\<close>

definition bundleFromJSON :: "SerializedBundle \<Rightarrow> error + Bundle" where
  "bundleFromJSON s =
     (case (case ser_content s of
              None \<Rightarrow> Some None
            | Some c \<Rightarrow> map_option Some (contentFromJSON c)) of
        None \<Rightarrow> Inl ValidationError
      | Some c \<Rightarrow>
          (let b = \<lparr>mediaType = ser_mediaType s,
                    verificationMaterial =
                      \<lparr>vm_content = map_option materialFromJSON (ser_material s),
                       tlogEntries = map tlogEntryFromJSON (ser_tlogEntries s),
                       timestampVerificationData =
                         map_option (map base64_decode) (ser_timestampVerificationData s)\<rparr>,
                    content = c\<rparr>
           in if well_formed_bundle b then Inr b else Inl ValidationError))"

subsection \<open>The bundles of the round-trip tests\<close>

text \<open>
  The three bundles of the tests of \<open>bundleFromJSON\<close>, of the versions 0.1, 0.2 and
  0.3: they differ in the media type, in the verification material (a certificate chain,
  or a single certificate in version 0.3) and in what the log entry carries (the SET in
  version 0.1, an inclusion proof after it).
\<close>

definition test_envelope :: BundleContent where
  "test_envelope =
     Case_dsseEnvelope
       \<lparr>payload = bytes_of ''ABC'', payloadType = js ''application/json'',
        dsse_signatures = [\<lparr>sig = bytes_of ''BAR'', keyid = []\<rparr>]\<rparr>"

definition test_entry :: "bytes option \<Rightarrow> InclusionProof option \<Rightarrow> TransparencyLogEntry" where
  "test_entry promise iproof =
     \<lparr>logIndex = js ''123'', logId = bytes_of ''123'',
      kindVersion = Some (js ''intoto'', js ''0.1.0''), integratedTime = js ''0'',
      inclusionPromise = promise, inclusionProof = iproof, canonicalizedBody = []\<rparr>"

definition empty_proof :: InclusionProof where
  "empty_proof =
     \<lparr>ip_logIndex = [], rootHash = [], treeSize = [], hashes = [],
      checkpoint_envelope = []\<rparr>"

definition bundle_v01 :: Bundle where
  "bundle_v01 =
     \<lparr>mediaType = js ''application/vnd.dev.sigstore.bundle+json;version=0.1'',
      verificationMaterial =
        \<lparr>vm_content = Some (Case_x509CertificateChain [bytes_of ''FOO'']),
         tlogEntries = [test_entry (Some []) None], timestampVerificationData = None\<rparr>,
      content = Some test_envelope\<rparr>"

definition bundle_v02 :: Bundle where
  "bundle_v02 =
     \<lparr>mediaType = js ''application/vnd.dev.sigstore.bundle+json;version=0.2'',
      verificationMaterial =
        \<lparr>vm_content = Some (Case_x509CertificateChain [bytes_of ''FOO'']),
         tlogEntries = [test_entry None (Some empty_proof)],
         timestampVerificationData = None\<rparr>,
      content = Some test_envelope\<rparr>"

definition bundle_v03 :: Bundle where
  "bundle_v03 =
     \<lparr>mediaType = js ''application/vnd.dev.sigstore.bundle+json;version=0.3'',
      verificationMaterial =
        \<lparr>vm_content = Some (Case_certificate (bytes_of ''FOO'')),
         tlogEntries = [test_entry None (Some empty_proof)],
         timestampVerificationData = None\<rparr>,
      content = Some test_envelope\<rparr>"

section \<open>Theorems\<close>

subsection \<open>C3: the pre-authentication encoding of the in-toto example\<close>

lemma length_in_toto_type: "length (js ''application/vnd.in-toto+json'') = 28"
  by (simp add: js_def)

text \<open>
  C3 (as stated, refuted): the encoding of payload type
  \<open>application/vnd.in-toto+json\<close> and payload \<open>payload\<close> is not
  \<open>DSSEv1 32 application/vnd.in-toto+json 7 payload\<close>: the payload type has 28
  characters, and the code writes \<open>payloadType.length\<close>.
\<close>

theorem C3_pae_example_counterexample:
  "dssePreAuthEncoding (js ''application/vnd.in-toto+json'') (bytes_of ''payload'')
     \<noteq> bytes_of ''DSSEv1 32 application/vnd.in-toto+json 7 payload''"
  by (simp add: dssePreAuthEncoding_def js_def bytes_of_def ascii_encode_def
      number_toString.simps digit_unit_def)

text \<open>
  C3 (amended): the DSSE pre-authentication encoding of payload type
  \<open>application/vnd.in-toto+json\<close> and payload bytes \<open>payload\<close> equals the ASCII
  bytes \<open>DSSEv1 28 application/vnd.in-toto+json 7 payload\<close>.
\<close>

theorem C3_pae_example:
  "dssePreAuthEncoding (js ''application/vnd.in-toto+json'') (bytes_of ''payload'')
     = bytes_of ''DSSEv1 28 application/vnd.in-toto+json 7 payload''"
  by (simp add: dssePreAuthEncoding_def js_def bytes_of_def ascii_encode_def
      number_toString.simps digit_unit_def)

subsection \<open>The signature pattern\<close>

lemma NonSpace_separators [simp]: "\<not> NonSpace 0x20" "\<not> NonSpace 0x0A"
  by (simp_all add: NonSpace_def WhiteSpace_def)

lemma exec_at_SomeD:
  assumes "exec_at s = Some (nm, sg, r)"
  shows "s = [0x2014, 0x20] @ nm @ [0x20] @ sg @ [0x0A] @ r
         \<and> nm \<noteq> [] \<and> sg \<noteq> [] \<and> list_all NonSpace nm \<and> list_all NonSpace sg"
proof -
  from assms obtain r0 where s: "s = 0x2014 # 0x20 # r0"
    unfolding exec_at_def by (auto split: list.splits if_splits)
  from assms s obtain r2 where r1: "dropWhile NonSpace r0 = 0x20 # r2"
    and nm: "nm = takeWhile NonSpace r0" "nm \<noteq> []"
    and rest: "sg = takeWhile NonSpace r2" "sg \<noteq> []" "dropWhile NonSpace r2 = 0x0A # r"
    unfolding exec_at_def by (auto split: list.splits if_splits simp: Let_def)
  have "r0 = nm @ 0x20 # r2"
    using r1 nm(1) takeWhile_dropWhile_id [of NonSpace r0] by simp
  moreover have "r2 = sg @ 0x0A # r"
    using rest takeWhile_dropWhile_id [of NonSpace r2] by simp
  moreover have "list_all NonSpace nm" "list_all NonSpace sg"
    using nm(1) rest(1) by (auto simp: list_all_iff dest: set_takeWhileD)
  ultimately show ?thesis using s nm(2) rest(2) by simp
qed

lemma exec_at_SomeI:
  assumes "nm \<noteq> []" "sg \<noteq> []" "list_all NonSpace nm" "list_all NonSpace sg"
  shows "exec_at ([0x2014, 0x20] @ nm @ [0x20] @ sg @ [0x0A] @ r) = Some (nm, sg, r)"
proof -
  have a: "takeWhile NonSpace (nm @ 0x20 # sg @ 0x0A # r) = nm"
    using assms(3) by (simp add: takeWhile_append2 list_all_iff)
  have b: "dropWhile NonSpace (nm @ 0x20 # sg @ 0x0A # r) = 0x20 # sg @ 0x0A # r"
    using assms(3) by (simp add: dropWhile_append2 list_all_iff)
  have c: "takeWhile NonSpace (sg @ 0x0A # r) = sg"
    using assms(4) by (simp add: takeWhile_append2 list_all_iff)
  have d: "dropWhile NonSpace (sg @ 0x0A # r) = 0x0A # r"
    using assms(4) by (simp add: dropWhile_append2 list_all_iff)
  show ?thesis
    using assms(1,2) by (simp add: exec_at_def a b c d)
qed

text \<open>The matcher finds a line exactly when the string contains one.\<close>

lemma matchAll_Nil_iff: "matchAll d = [] \<longleftrightarrow> \<not> has_signature_line d"
proof (induction d rule: matchAll.induct)
  case (1 s)
  show ?case
  proof (cases "s = []")
    case True
    then show ?thesis by (simp add: matchAll.simps has_signature_line_def)
  next
    case ne: False
    show ?thesis
    proof (cases "exec_at s")
      case (Some m)
      obtain nm sg r where m: "m = (nm, sg, r)" by (cases m)
      from exec_at_SomeD [OF Some [unfolded m]]
      have "has_signature_line s"
        unfolding has_signature_line_def
        by (intro exI [of _ "[]"] exI [of _ nm] exI [of _ sg] exI [of _ r]) simp
      moreover have "matchAll s \<noteq> []"
        using ne Some m by (simp add: matchAll.simps)
      ultimately show ?thesis by simp
    next
      case None
      have eq: "matchAll s = matchAll (tl s)"
        using ne None by (simp add: matchAll.simps)
      have "has_signature_line s \<longleftrightarrow> has_signature_line (tl s)"
      proof
        assume "has_signature_line s"
        then obtain pre nm sg post
          where d: "s = pre @ [0x2014, 0x20] @ nm @ [0x20] @ sg @ [0x0A] @ post"
            and p: "nm \<noteq> []" "sg \<noteq> []" "list_all NonSpace nm" "list_all NonSpace sg"
          unfolding has_signature_line_def by blast
        have "pre \<noteq> []"
        proof
          assume "pre = []"
          with d exec_at_SomeI [OF p, of post] None show False by simp
        qed
        then obtain x pre' where "pre = x # pre'" by (cases pre) auto
        with d have "tl s = pre' @ [0x2014, 0x20] @ nm @ [0x20] @ sg @ [0x0A] @ post"
          by simp
        with p show "has_signature_line (tl s)"
          unfolding has_signature_line_def by blast
      next
        assume "has_signature_line (tl s)"
        then obtain pre nm sg post
          where d: "tl s = pre @ [0x2014, 0x20] @ nm @ [0x20] @ sg @ [0x0A] @ post"
            and p: "nm \<noteq> []" "sg \<noteq> []" "list_all NonSpace nm" "list_all NonSpace sg"
          unfolding has_signature_line_def by blast
        from ne d have "s = (hd s # pre) @ [0x2014, 0x20] @ nm @ [0x20] @ sg @ [0x0A] @ post"
          by (cases s) auto
        with p show "has_signature_line s"
          unfolding has_signature_line_def by blast
      qed
      with eq "1.IH"(1) [OF ne None] show ?thesis by simp
    qed
  qed
qed

lemma map_throwing_Inl:
  "x \<in> set xs \<Longrightarrow> f x = Inl e \<Longrightarrow> \<exists>e'. map_throwing f xs = Inl e'"
  by (induction xs) (auto split: sum.splits)

lemma map_throwing_Inl_range:
  "map_throwing f xs = Inl e \<Longrightarrow> \<exists>x \<in> set xs. f x = Inl e"
  by (induction xs) (auto split: sum.splits)

subsection \<open>The two checkpoints, parsed\<close>

lemma two_line_includes: "str_includes two_line_envelope CHECKPOINT_SEPARATOR"
  by (simp add: two_line_envelope_def CHECKPOINT_SEPARATOR_def js_def)

lemma two_line_indexOf: "indexOf two_line_envelope CHECKPOINT_SEPARATOR = 10"
  by (simp add: two_line_envelope_def CHECKPOINT_SEPARATOR_def js_def)

lemma two_line_section:
  "signature_section two_line_envelope =
     [0x2014] @ js '' a AAAAAAE=\<newline>'' @ [0x2014] @ js '' b AQEBAQE=\<newline>''"
  by (simp add: signature_section_def two_line_indexOf slice_from_def slice_def slice_index_def)
     (simp add: two_line_envelope_def CHECKPOINT_SEPARATOR_def js_def)

lemma two_line_header: "note_header two_line_envelope = js ''log\<newline>1\<newline>AAAA\<newline>''"
  by (simp add: note_header_def two_line_indexOf slice_def slice_index_def)
     (simp add: two_line_envelope_def js_def)

lemma two_line_matches:
  "matchAll (signature_section two_line_envelope) =
     [(js ''a'', js ''AAAAAAE=''), (js ''b'', js ''AQEBAQE='')]"
  unfolding two_line_section
  by (simp add: js_def matchAll.simps exec_at_def NonSpace_def WhiteSpace_def)

lemma one_line_includes: "str_includes one_line_envelope CHECKPOINT_SEPARATOR"
  by (simp add: one_line_envelope_def CHECKPOINT_SEPARATOR_def js_def)

lemma one_line_indexOf: "indexOf one_line_envelope CHECKPOINT_SEPARATOR = 10"
  by (simp add: one_line_envelope_def CHECKPOINT_SEPARATOR_def js_def)

lemma one_line_section:
  "signature_section one_line_envelope = [0x2014] @ js '' a AAAAAAE=\<newline>''"
  by (simp add: signature_section_def one_line_indexOf slice_from_def slice_def slice_index_def)
     (simp add: one_line_envelope_def CHECKPOINT_SEPARATOR_def js_def)

lemma one_line_header: "note_header one_line_envelope = js ''log\<newline>1\<newline>AAAA\<newline>''"
  by (simp add: note_header_def one_line_indexOf slice_def slice_index_def)
     (simp add: one_line_envelope_def js_def)

lemma one_line_matches:
  "matchAll (signature_section one_line_envelope) = [(js ''a'', js ''AAAAAAE='')]"
  unfolding one_line_section
  by (simp add: js_def matchAll.simps exec_at_def NonSpace_def WhiteSpace_def)

lemma base64_decode_examples:
  "base64_decode (js ''AAAAAAE='') = [0, 0, 0, 0, 1]"
  "base64_decode (js ''AQEBAQE='') = [1, 1, 1, 1, 1]"
  "base64_decode (js ''AAAA'') = [0, 0, 0]"
  by (simp_all add: base64_decode_def js_def sextet_of_def)

lemma two_line_parsed:
  "SignedNote_fromString base64_decode two_line_envelope =
     Inr \<lparr>sn_note = js ''log\<newline>1\<newline>AAAA\<newline>'',
          signatures = [\<lparr>name = js ''a'', keyHint = [0, 0, 0, 0], signature = [1]\<rparr>,
                        \<lparr>name = js ''b'', keyHint = [1, 1, 1, 1], signature = [1]\<rparr>]\<rparr>"
  by (simp add: SignedNote_fromString_def two_line_includes two_line_matches two_line_header
      parse_signature_def base64_decode_examples)

lemma one_line_parsed:
  "SignedNote_fromString base64_decode one_line_envelope =
     Inr \<lparr>sn_note = js ''log\<newline>1\<newline>AAAA\<newline>'',
          signatures = [\<lparr>name = js ''a'', keyHint = [0, 0, 0, 0], signature = [1]\<rparr>]\<rparr>"
  by (simp add: SignedNote_fromString_def one_line_includes one_line_matches one_line_header
      parse_signature_def base64_decode_examples)

lemma note_checkpoint:
  "LogCheckpoint_fromString base64_decode decimal_value (js ''log\<newline>1\<newline>AAAA\<newline>'') =
     Inr \<lparr>origin = js ''log'', logSize = 1, logHash = [0, 0, 0], rest = []\<rparr>"
  apply (simp add: LogCheckpoint_fromString_def Let_def)
  apply (simp add: js_def trimEnd_def WhiteSpace_def decimal_value_def)
  apply (simp add: base64_decode_examples [unfolded js_def, simplified])
  done

subsection \<open>C10: a checkpoint without a signature line, or with a short signature\<close>

text \<open>
  C10: for every checkpoint envelope that contains the separator \<open>\n\n\<close>: if the
  signature section (what follows the first separator) contains no line of the form em
  dash, space, identity, space, base64 token, newline, then parsing the signed note throws
  a VerificationError with code \<open>TLOG_INCLUSION_PROOF_ERROR\<close> and message
  \<open>no signatures found in checkpoint\<close>; and if any matched signature line has a base64
  token that decodes to fewer than 5 bytes, parsing throws a VerificationError with the
  same code (message \<open>malformed checkpoint signature\<close>). The base64 decoder \<open>b64\<close> is
  arbitrary.
\<close>

theorem C10_signed_note_errors:
  assumes "str_includes envelope CHECKPOINT_SEPARATOR"
  shows "(\<not> has_signature_line (signature_section envelope) \<longrightarrow>
            SignedNote_fromString b64 envelope =
              Inl (VerificationError (Some ''TLOG_INCLUSION_PROOF_ERROR'')
                     ''no signatures found in checkpoint''))
       \<and> ((\<exists>m \<in> set (matchAll (signature_section envelope)). length (b64 (snd m)) < 5) \<longrightarrow>
            SignedNote_fromString b64 envelope =
              Inl (VerificationError (Some ''TLOG_INCLUSION_PROOF_ERROR'')
                     ''malformed checkpoint signature''))"
proof (intro conjI impI)
  assume "\<not> has_signature_line (signature_section envelope)"
  then have "matchAll (signature_section envelope) = []"
    by (simp add: matchAll_Nil_iff)
  then show "SignedNote_fromString b64 envelope =
              Inl (VerificationError (Some ''TLOG_INCLUSION_PROOF_ERROR'')
                     ''no signatures found in checkpoint'')"
    using assms by (simp add: SignedNote_fromString_def TLOG_INCLUSION_PROOF_ERROR_def)
next
  assume "\<exists>m \<in> set (matchAll (signature_section envelope)). length (b64 (snd m)) < 5"
  then obtain m where m: "m \<in> set (matchAll (signature_section envelope))"
    "length (b64 (snd m)) < 5"
    by blast
  have "\<exists>e. parse_signature b64 m = Inl e"
    using m(2) by (auto simp: parse_signature_def Let_def split: prod.splits)
  with m(1) obtain e
    where e: "map_throwing (parse_signature b64) (matchAll (signature_section envelope)) = Inl e"
    using map_throwing_Inl [of m _ "parse_signature b64"] by blast
  from map_throwing_Inl_range [OF e]
  have "e = VerificationError (Some TLOG_INCLUSION_PROOF_ERROR) ''malformed checkpoint signature''"
    by (auto simp: parse_signature_def Let_def split: if_splits prod.splits)
  with e show "SignedNote_fromString b64 envelope =
              Inl (VerificationError (Some ''TLOG_INCLUSION_PROOF_ERROR'')
                     ''malformed checkpoint signature'')"
    using assms by (simp add: SignedNote_fromString_def TLOG_INCLUSION_PROOF_ERROR_def)
qed

text \<open>
  Witness: the envelope \<open>log\n\nnone\<close> has the separator and no signature line; the
  envelope \<open>log\n\n\<emdash> a AAAA\n\<close> has a signature line whose base64 token decodes to
  three bytes.
\<close>

theorem C10_signed_note_errors_witness:
  "str_includes (js ''log\<newline>\<newline>none'') CHECKPOINT_SEPARATOR
   \<and> \<not> has_signature_line (signature_section (js ''log\<newline>\<newline>none''))
   \<and> SignedNote_fromString base64_decode (js ''log\<newline>\<newline>none'') =
       Inl (VerificationError (Some ''TLOG_INCLUSION_PROOF_ERROR'')
              ''no signatures found in checkpoint'')
   \<and> str_includes short_envelope CHECKPOINT_SEPARATOR
   \<and> (\<exists>m \<in> set (matchAll (signature_section short_envelope)).
         length (base64_decode (snd m)) < 5)
   \<and> SignedNote_fromString base64_decode short_envelope =
       Inl (VerificationError (Some ''TLOG_INCLUSION_PROOF_ERROR'')
              ''malformed checkpoint signature'')"
proof -
  let ?e = "js ''log\<newline>\<newline>none''"
  have inc: "str_includes ?e CHECKPOINT_SEPARATOR"
    by (simp add: CHECKPOINT_SEPARATOR_def js_def)
  have "indexOf ?e CHECKPOINT_SEPARATOR = 3"
    by (simp add: CHECKPOINT_SEPARATOR_def js_def)
  then have "signature_section ?e = js ''none''"
    by (simp add: signature_section_def slice_from_def slice_def slice_index_def)
       (simp add: CHECKPOINT_SEPARATOR_def js_def)
  then have "matchAll (signature_section ?e) = []"
    by (simp add: js_def matchAll.simps exec_at_def)
  then have none: "\<not> has_signature_line (signature_section ?e)"
    by (simp add: matchAll_Nil_iff)
  have inc': "str_includes short_envelope CHECKPOINT_SEPARATOR"
    by (simp add: short_envelope_def CHECKPOINT_SEPARATOR_def js_def)
  have "indexOf short_envelope CHECKPOINT_SEPARATOR = 3"
    by (simp add: short_envelope_def CHECKPOINT_SEPARATOR_def js_def)
  then have "signature_section short_envelope = [0x2014] @ js '' a AAAA\<newline>''"
    by (simp add: signature_section_def slice_from_def slice_def slice_index_def)
       (simp add: short_envelope_def CHECKPOINT_SEPARATOR_def js_def)
  then have "matchAll (signature_section short_envelope) = [(js ''a'', js ''AAAA'')]"
    by (simp add: js_def matchAll.simps exec_at_def NonSpace_def WhiteSpace_def)
  then have short: "\<exists>m \<in> set (matchAll (signature_section short_envelope)).
         length (base64_decode (snd m)) < 5"
    by (simp add: base64_decode_examples)
  from C10_signed_note_errors [OF inc, of base64_decode] none
    C10_signed_note_errors [OF inc', of base64_decode] short
  show ?thesis
    using inc inc' by blast
qed

subsection \<open>C1: which signatures of a checkpoint must verify\<close>

lemma verifySignedNote_iff:
  "verifySignedNote P sn logs \<longleftrightarrow>
     (\<forall>sg \<in> set (signatures sn).
        \<exists>tlog. find (\<lambda>tlog. take 4 (logID tlog) = keyHint sg) logs = Some tlog
          \<and> crypto_verify P (Buffer_from_utf8 P (sn_note sn)) (publicKey tlog) (signature sg))"
  by (auto simp: verifySignedNote_def Let_def list_all_iff bufferEqual_def split: option.splits)

text \<open>
  C1 (as stated, refuted): in the two-line checkpoint the first signature line has the
  key hint of the trusted log and verifies over the note with that log's key (the
  one-line checkpoint, which has this line only, passes), and the second line matches no
  trusted log. Verification of the two-line checkpoint raises
  \<open>TLOG_INCLUSION_PROOF_ERROR\<close>, \<open>invalid checkpoint signature\<close>.
\<close>

theorem C1_one_valid_signature_counterexample:
  "SignedNote_fromString base64_decode two_line_envelope =
     Inr \<lparr>sn_note = js ''log\<newline>1\<newline>AAAA\<newline>'',
          signatures = [\<lparr>name = js ''a'', keyHint = [0, 0, 0, 0], signature = [1]\<rparr>,
                        \<lparr>name = js ''b'', keyHint = [1, 1, 1, 1], signature = [1]\<rparr>]\<rparr>
   \<and> take 4 (logID (hd one_log)) = [0, 0, 0, 0]
   \<and> crypto_verify test_platform
        (Buffer_from_utf8 test_platform (js ''log\<newline>1\<newline>AAAA\<newline>''))
        (publicKey (hd one_log)) [1]
   \<and> verifyCheckpoint test_platform (checkpoint_entry one_line_envelope) one_log = Inr ()
   \<and> verifyCheckpoint test_platform (checkpoint_entry two_line_envelope) one_log =
       Inl (VerificationError (Some ''TLOG_INCLUSION_PROOF_ERROR'')
              ''invalid checkpoint signature'')"
  by (simp add: verifyCheckpoint_def test_platform_def checkpoint_entry_def two_line_parsed
      one_line_parsed note_checkpoint one_log_def verifySignedNote_def bufferEqual_def
      TLOG_INCLUSION_PROOF_ERROR_def)

text \<open>
  C1 (amended): for every checkpoint envelope that parses into a signed note and a
  checkpoint, verification passes the signature step (does not raise
  \<open>TLOG_INCLUSION_PROOF_ERROR\<close>, \<open>invalid checkpoint signature\<close>) exactly when every
  parsed signature line has a key hint equal to the first four bytes of the log ID of
  one of the trusted logs valid at the entry's integrated time, and verifies over the
  note body bytes with the public key of the first such log.
\<close>

theorem C1_every_signature_must_verify:
  assumes "SignedNote_fromString (Buffer_from_base64 P)
             (checkpoint_envelope (inclusionProof entry)) = Inr sn"
    and "LogCheckpoint_fromString (Buffer_from_base64 P) (BigInt P) (sn_note sn) = Inr cp"
  shows "verifyCheckpoint P entry logs
           \<noteq> Inl (VerificationError (Some ''TLOG_INCLUSION_PROOF_ERROR'')
                    ''invalid checkpoint signature'')
         \<longleftrightarrow>
         (\<forall>sg \<in> set (signatures sn).
            \<exists>tlog. find (\<lambda>tlog. take 4 (logID tlog) = keyHint sg)
                      (filterTLogAuthorities P logs (Date_of_seconds P (integratedTime entry)))
                    = Some tlog
              \<and> crypto_verify P (Buffer_from_utf8 P (sn_note sn)) (publicKey tlog)
                  (signature sg))"
proof -
  let ?valid = "filterTLogAuthorities P logs (Date_of_seconds P (integratedTime entry))"
  have "verifyCheckpoint P entry logs
          \<noteq> Inl (VerificationError (Some ''TLOG_INCLUSION_PROOF_ERROR'')
                   ''invalid checkpoint signature'')
        \<longleftrightarrow> verifySignedNote P sn ?valid"
    using assms
    by (simp add: verifyCheckpoint_def Let_def TLOG_INCLUSION_PROOF_ERROR_def)
  then show ?thesis
    by (simp only: verifySignedNote_iff)
qed

text \<open>Witness: the one-line checkpoint, whose only signature verifies.\<close>

theorem C1_every_signature_must_verify_witness:
  "SignedNote_fromString (Buffer_from_base64 test_platform)
     (checkpoint_envelope (inclusionProof (checkpoint_entry one_line_envelope))) =
     Inr \<lparr>sn_note = js ''log\<newline>1\<newline>AAAA\<newline>'',
          signatures = [\<lparr>name = js ''a'', keyHint = [0, 0, 0, 0], signature = [1]\<rparr>]\<rparr>
   \<and> LogCheckpoint_fromString (Buffer_from_base64 test_platform) (BigInt test_platform)
       (js ''log\<newline>1\<newline>AAAA\<newline>'') =
       Inr \<lparr>origin = js ''log'', logSize = 1, logHash = [0, 0, 0], rest = []\<rparr>
   \<and> verifyCheckpoint test_platform (checkpoint_entry one_line_envelope) one_log
       \<noteq> Inl (VerificationError (Some ''TLOG_INCLUSION_PROOF_ERROR'')
                ''invalid checkpoint signature'')"
proof -
  let ?sn = "\<lparr>sn_note = js ''log\<newline>1\<newline>AAAA\<newline>'',
          signatures = [\<lparr>name = js ''a'', keyHint = [0, 0, 0, 0], signature = [1]\<rparr>]\<rparr>"
  have a: "SignedNote_fromString (Buffer_from_base64 test_platform)
     (checkpoint_envelope (inclusionProof (checkpoint_entry one_line_envelope))) = Inr ?sn"
    by (simp add: test_platform_def checkpoint_entry_def one_line_parsed)
  have b: "LogCheckpoint_fromString (Buffer_from_base64 test_platform) (BigInt test_platform)
       (sn_note ?sn) =
       Inr \<lparr>origin = js ''log'', logSize = 1, logHash = [0, 0, 0], rest = []\<rparr>"
    by (simp add: test_platform_def note_checkpoint)
  have c: "\<forall>sg \<in> set (signatures ?sn).
            \<exists>tlog. find (\<lambda>tlog. take 4 (logID tlog) = keyHint sg)
                      (filterTLogAuthorities test_platform one_log
                         (Date_of_seconds test_platform
                            (integratedTime (checkpoint_entry one_line_envelope))))
                    = Some tlog
              \<and> crypto_verify test_platform (Buffer_from_utf8 test_platform (sn_note ?sn))
                  (publicKey tlog) (signature sg)"
    by (simp add: test_platform_def one_log_def)
  from C1_every_signature_must_verify [OF a b, of one_log] c
  have "verifyCheckpoint test_platform (checkpoint_entry one_line_envelope) one_log
       \<noteq> Inl (VerificationError (Some ''TLOG_INCLUSION_PROOF_ERROR'')
                ''invalid checkpoint signature'')"
    by blast
  with a b show ?thesis by simp
qed

subsection \<open>The client's verifier on the test bundles\<close>

lemmas test_defs = test_collaborators_def promise_entry_def message_bundle_def
  test_options_def test_verifier_def dsse_bundle_def

lemmas verifier_defs = verifyTLogEntries_def signingCertificate_def verifyTLogEntryOffline_def
  isTransparencyLogEntryWithInclusionPromise_def verify_def verifyArtifactSignature_def
  getPublicKey_def getPublicKeyFromCertificateChain_def getPublicKeyFromHint_def
  verifyDSSESignature_def verifyMessageSignature_def isBundleWithCertificateChain_def
  verifySigningCertificate_def

lemma decimal_value_digit [simp]:
  "decimal_value (js ''0'') = Some 0"
  "decimal_value (js ''2'') = Some 2"
  "decimal_value (js ''9'') = Some 9"
  by (simp_all add: decimal_value_def js_def)

lemma getPublicKey_update [simp]:
  "getPublicKey V (C\<lparr>crypto_hash := h, crypto_verifyBlob := vb\<rparr>) bundle = getPublicKey V C bundle"
  by (simp add: getPublicKey_def getPublicKeyFromCertificateChain_def getPublicKeyFromHint_def
      split: option.splits VerificationMaterialContent.splits list.splits)

subsection \<open>C2: an entry integrated outside the certificate's validity window\<close>

text \<open>
  C2 (as stated, refuted): the leaf of the bundle is valid from second 1 to second 5;
  one entry was integrated at second 2 and another at second 9, outside the window. With
  threshold 1, the verification of the log entries returns without error, and so does
  the whole of \<open>verify\<close>: the second entry is only left out of the count.
\<close>

theorem C2_outside_window_counterexample:
  "x509Certificate_parse test_collaborators [1, 5] = Inr (1000, 5000)
   \<and> Date_from_seconds test_collaborators
        (integratedTime (promise_entry (js ''1'') (js ''9''))) = 9000
   \<and> \<not> validForDate test_collaborators (1000, 5000) 9000
   \<and> verifyTLogEntries test_collaborators
        (message_bundle (Some (Case_x509CertificateChain [[1, 5]]))
           [promise_entry (js ''0'') (js ''2''), promise_entry (js ''1'') (js ''9'')])
        \<lparr>tlogs = []\<rparr> (tlogOptions (test_options 1)) = Inr ()
   \<and> verify test_verifier test_collaborators
        (message_bundle (Some (Case_x509CertificateChain [[1, 5]]))
           [promise_entry (js ''0'') (js ''2''), promise_entry (js ''1'') (js ''9'')])
        (test_options 1) (Some (bytes_of ''hello'')) = Inr ()"
  by (simp add: test_defs verifier_defs bytes_of_def)

text \<open>
  C2 (amended): for every bundle with a certificate chain whose leaf parses, when
  online verification is not requested, a log entry whose integrated time falls outside
  the leaf's validity window is excluded from the count of verified entries, and nothing
  else: verification of the log entries fails, with the VerificationError
  \<open>tlog verification failed\<close>, exactly when fewer entries than the threshold pass the
  body check, carry an inclusion promise whose SET verifies, and were integrated within
  the window; and its outcome is that of the bundle with the entries outside the window
  removed.
\<close>

theorem C2_outside_window_excluded:
  assumes "\<not> performOnlineVerification options"
    and "vm_content (verificationMaterial bundle) =
           Some (Case_x509CertificateChain (leaf # chain))"
    and "x509Certificate_parse C leaf = Inr cert"
  shows "verifyTLogEntries C bundle root options =
           (if int (length (filter (\<lambda>entry. verifyTLogBody C entry (content bundle)
                                     \<and> inclusionPromise entry \<noteq> None
                                     \<and> verifyTLogSET C entry (tlogs root)
                                     \<and> in_window C cert entry)
                              (tlogEntries (verificationMaterial bundle))))
                 < threshold options
            then Inl (VerificationError None ''tlog verification failed'')
            else Inr ())
       \<and> verifyTLogEntries C bundle root options =
           verifyTLogEntries C
             (bundle\<lparr>verificationMaterial :=
                (verificationMaterial bundle)
                  \<lparr>tlogEntries := filter (in_window C cert)
                                     (tlogEntries (verificationMaterial bundle))\<rparr>\<rparr>)
              root options"
  using assms
  apply (simp add: verifyTLogEntries_def signingCertificate_def verifyTLogEntryOffline_def
      isTransparencyLogEntryWithInclusionPromise_def in_window_def Let_def)
  apply (auto simp: conj_ac cong: conj_cong)
  done

text \<open>Witness: the bundle of the counterexample verifies as the bundle without its second entry.\<close>

theorem C2_outside_window_excluded_witness:
  "\<not> performOnlineVerification (tlogOptions (test_options 1))
   \<and> vm_content (verificationMaterial
        (message_bundle (Some (Case_x509CertificateChain [[1, 5]]))
           [promise_entry (js ''0'') (js ''2''), promise_entry (js ''1'') (js ''9'')]))
       = Some (Case_x509CertificateChain ([1, 5] # []))
   \<and> x509Certificate_parse test_collaborators [1, 5] = Inr (1000, 5000)
   \<and> verifyTLogEntries test_collaborators
        (message_bundle (Some (Case_x509CertificateChain [[1, 5]]))
           [promise_entry (js ''0'') (js ''2''), promise_entry (js ''1'') (js ''9'')])
        \<lparr>tlogs = []\<rparr> (tlogOptions (test_options 1))
      = verifyTLogEntries test_collaborators
        (message_bundle (Some (Case_x509CertificateChain [[1, 5]]))
           [promise_entry (js ''0'') (js ''2'')])
        \<lparr>tlogs = []\<rparr> (tlogOptions (test_options 1))"
proof -
  let ?b = "message_bundle (Some (Case_x509CertificateChain [[1, 5]]))
           [promise_entry (js ''0'') (js ''2''), promise_entry (js ''1'') (js ''9'')]"
  have a: "\<not> performOnlineVerification (tlogOptions (test_options 1))"
    by (simp add: test_defs)
  have b: "vm_content (verificationMaterial ?b) = Some (Case_x509CertificateChain ([1, 5] # []))"
    by (simp add: test_defs)
  have c: "x509Certificate_parse test_collaborators [1, 5] = Inr (1000, 5000)"
    by (simp add: test_defs)
  have d: "?b\<lparr>verificationMaterial :=
                (verificationMaterial ?b)
                  \<lparr>tlogEntries := filter (in_window test_collaborators (1000, 5000))
                                     (tlogEntries (verificationMaterial ?b))\<rparr>\<rparr>
           = message_bundle (Some (Case_x509CertificateChain [[1, 5]]))
               [promise_entry (js ''0'') (js ''2'')]"
    by (simp add: test_defs in_window_def)
  have e: "verifyTLogEntries test_collaborators ?b \<lparr>tlogs = []\<rparr> (tlogOptions (test_options 1))
      = verifyTLogEntries test_collaborators
        (message_bundle (Some (Case_x509CertificateChain [[1, 5]]))
           [promise_entry (js ''0'') (js ''2'')])
        \<lparr>tlogs = []\<rparr> (tlogOptions (test_options 1))"
    using C2_outside_window_excluded [OF a b c, of "\<lparr>tlogs = []\<rparr>", THEN conjunct2]
    by (simp only: d)
  show ?thesis
    by (intro conjI) (rule a b c e)+
qed

subsection \<open>C4: the threshold of verified log entries\<close>

text \<open>
  C4 (as stated, refuted): with one entry and threshold 2, the verification of the
  log entries fails with a VerificationError that has the message
  \<open>tlog verification failed\<close> and no error code: it is not a \<open>TIMESTAMP_ERROR\<close>.
\<close>

theorem C4_threshold_error_code_counterexample:
  "verifyTLogEntries test_collaborators
     (message_bundle (Some (Case_publicKey (js ''known''))) [promise_entry (js ''0'') (js ''2'')])
     \<lparr>tlogs = []\<rparr> (tlogOptions (test_options 2))
     = Inl (VerificationError None ''tlog verification failed'')
   \<and> error_code (VerificationError None ''tlog verification failed'')
       \<noteq> Some ''TIMESTAMP_ERROR''"
  by (simp add: test_defs verifier_defs)

text \<open>
  C4 (amended): for every bundle and options, when online verification is not
  requested and the signing certificate, if there is one, parses: if the number of
  log entries that pass offline verification is strictly less than the threshold, the
  verification of the log entries fails with the VerificationError
  \<open>tlog verification failed\<close>, which carries no error code; if the number is greater
  than or equal to the threshold, it returns without error.
\<close>

theorem C4_threshold:
  assumes "\<not> performOnlineVerification options"
    and "signingCertificate C bundle = Inr signingCert"
  shows "(int (length (filter (\<lambda>entry. verifyTLogEntryOffline C entry (content bundle)
                                          (tlogs root) signingCert)
                          (tlogEntries (verificationMaterial bundle)))) < threshold options
            \<longrightarrow> verifyTLogEntries C bundle root options =
                  Inl (VerificationError None ''tlog verification failed''))
       \<and> (threshold options
            \<le> int (length (filter (\<lambda>entry. verifyTLogEntryOffline C entry (content bundle)
                                              (tlogs root) signingCert)
                              (tlogEntries (verificationMaterial bundle))))
            \<longrightarrow> verifyTLogEntries C bundle root options = Inr ())"
  using assms by (simp add: verifyTLogEntries_def Let_def)

text \<open>Witness: one verified entry, against the thresholds 2 and 1.\<close>

theorem C4_threshold_witness:
  "\<not> performOnlineVerification (tlogOptions (test_options 2))
   \<and> signingCertificate test_collaborators
        (message_bundle (Some (Case_publicKey (js ''known'')))
           [promise_entry (js ''0'') (js ''2'')]) = Inr None
   \<and> verifyTLogEntries test_collaborators
        (message_bundle (Some (Case_publicKey (js ''known'')))
           [promise_entry (js ''0'') (js ''2'')])
        \<lparr>tlogs = []\<rparr> (tlogOptions (test_options 2))
       = Inl (VerificationError None ''tlog verification failed'')
   \<and> verifyTLogEntries test_collaborators
        (message_bundle (Some (Case_publicKey (js ''known'')))
           [promise_entry (js ''0'') (js ''2'')])
        \<lparr>tlogs = []\<rparr> (tlogOptions (test_options 1))
       = Inr ()"
proof -
  let ?b = "message_bundle (Some (Case_publicKey (js ''known'')))
              [promise_entry (js ''0'') (js ''2'')]"
  have a: "\<not> performOnlineVerification (tlogOptions (test_options 2))"
    "\<not> performOnlineVerification (tlogOptions (test_options 1))"
    by (simp_all add: test_defs)
  have b: "signingCertificate test_collaborators ?b = (Inr None :: error + (int \<times> int) option)"
    by (simp add: test_defs signingCertificate_def)
  have c: "length (filter (\<lambda>entry. verifyTLogEntryOffline test_collaborators entry (content ?b)
                                          (tlogs \<lparr>tlogs = []\<rparr>) None)
                          (tlogEntries (verificationMaterial ?b))) = 1"
    by (simp add: test_defs verifier_defs)
  from C4_threshold [OF a(1) b, of "\<lparr>tlogs = []\<rparr>"] C4_threshold [OF a(2) b, of "\<lparr>tlogs = []\<rparr>"] c
  have "verifyTLogEntries test_collaborators ?b \<lparr>tlogs = []\<rparr> (tlogOptions (test_options 2))
          = Inl (VerificationError None ''tlog verification failed'')"
    "verifyTLogEntries test_collaborators ?b \<lparr>tlogs = []\<rparr> (tlogOptions (test_options 1)) = Inr ()"
    by (simp_all add: test_options_def)
  with a b show ?thesis by simp
qed

subsection \<open>C6: the first signature of a DSSE envelope\<close>

text \<open>
  C6: for every bundle whose content is a DSSE envelope with a first signature, and
  for which a public key was selected, signature verification succeeds exactly when
  the first signature of the envelope verifies, with the selected key, over the
  pre-authentication encoding of payload type and payload, and fails with the
  VerificationError \<open>artifact signature verification failed\<close> otherwise; the
  signatures after the first do not enter the outcome (it is that of the envelope with
  the first signature alone).
\<close>

theorem C6_dsse_first_signature:
  assumes "content bundle =
             Some (Case_dsseEnvelope
                     \<lparr>payload = p, payloadType = pt, dsse_signatures = first # others\<rparr>)"
    and "getPublicKey V C bundle = Inr key"
  shows "verifyArtifactSignature V C bundle data =
           (if crypto_verifyBlob C (dsse_preAuthEncoding C pt p) key (sig first) then Inr ()
            else Inl (VerificationError None ''artifact signature verification failed''))
       \<and> verifyDSSESignature C
            \<lparr>payload = p, payloadType = pt, dsse_signatures = first # others\<rparr> key
         = verifyDSSESignature C
            \<lparr>payload = p, payloadType = pt, dsse_signatures = [first]\<rparr> key"
  using assms by (simp add: verifyArtifactSignature_def verifyDSSESignature_def)

text \<open>
  Witness: an envelope whose first signature verifies and whose second does not; the
  encoding is \<open>dssePreAuthEncoding\<close>.
\<close>

theorem C6_dsse_first_signature_witness:
  "content (dsse_bundle [\<lparr>sig = [1], keyid = js ''a''\<rparr>, \<lparr>sig = [7], keyid = js ''b''\<rparr>]) =
     Some (Case_dsseEnvelope
             \<lparr>payload = bytes_of ''payload'',
              payloadType = js ''application/vnd.in-toto+json'',
              dsse_signatures =
                \<lparr>sig = [1], keyid = js ''a''\<rparr> # [\<lparr>sig = [7], keyid = js ''b''\<rparr>]\<rparr>)
   \<and> getPublicKey test_verifier test_collaborators
        (dsse_bundle [\<lparr>sig = [1], keyid = js ''a''\<rparr>, \<lparr>sig = [7], keyid = js ''b''\<rparr>])
       = Inr (Some 1)
   \<and> crypto_verifyBlob test_collaborators
        (dssePreAuthEncoding (js ''application/vnd.in-toto+json'') (bytes_of ''payload''))
        (Some 1) [1]
   \<and> \<not> crypto_verifyBlob test_collaborators
        (dssePreAuthEncoding (js ''application/vnd.in-toto+json'') (bytes_of ''payload''))
        (Some 1) [7]
   \<and> verifyArtifactSignature test_verifier test_collaborators
        (dsse_bundle [\<lparr>sig = [1], keyid = js ''a''\<rparr>, \<lparr>sig = [7], keyid = js ''b''\<rparr>]) None
       = Inr ()"
proof -
  let ?b = "dsse_bundle [\<lparr>sig = [1], keyid = js ''a''\<rparr>, \<lparr>sig = [7], keyid = js ''b''\<rparr>]"
  have a: "content ?b =
     Some (Case_dsseEnvelope
             \<lparr>payload = bytes_of ''payload'',
              payloadType = js ''application/vnd.in-toto+json'',
              dsse_signatures =
                \<lparr>sig = [1], keyid = js ''a''\<rparr> # [\<lparr>sig = [7], keyid = js ''b''\<rparr>]\<rparr>)"
    by (simp add: dsse_bundle_def)
  have b: "getPublicKey test_verifier test_collaborators ?b = Inr (Some 1)"
    by (simp add: test_defs getPublicKey_def getPublicKeyFromHint_def)
  have c: "crypto_verifyBlob test_collaborators
        (dssePreAuthEncoding (js ''application/vnd.in-toto+json'') (bytes_of ''payload''))
        (Some 1) [1]"
     "\<not> crypto_verifyBlob test_collaborators
        (dssePreAuthEncoding (js ''application/vnd.in-toto+json'') (bytes_of ''payload''))
        (Some 1) [7]"
    by (simp_all add: test_collaborators_def)
  have d: "dsse_preAuthEncoding test_collaborators = dssePreAuthEncoding"
    by (simp add: test_collaborators_def)
  from C6_dsse_first_signature [OF a b, of None] c d
  have "verifyArtifactSignature test_verifier test_collaborators ?b None = Inr ()"
    by simp
  with a b c show ?thesis by simp
qed

subsection \<open>C7: a message signature without the artifact\<close>

text \<open>
  C7 (as stated, refuted): a message-signature bundle whose key hint the key selector
  does not know, verified without data, fails with the VerificationError
  \<open>no public key found for signature verification\<close>: the key is selected before the
  data is looked at. No error of the client's verifier carries the code
  \<open>SIGNATURE_ERROR\<close>.
\<close>

theorem C7_no_data_counterexample:
  "content (message_bundle (Some (Case_publicKey (js ''unknown''))) []) =
     Some (Case_messageSignature
             \<lparr>messageDigest = \<lparr>algorithm = SHA2_256, digest = [104]\<rparr>, msg_signature = [1]\<rparr>)
   \<and> verify test_verifier test_collaborators
       (message_bundle (Some (Case_publicKey (js ''unknown''))) []) (test_options 1) None =
       Inl (VerificationError None ''no public key found for signature verification'')"
  by (simp add: test_defs verifier_defs js_def)

text \<open>
  C7 (amended): for every message-signature bundle for which the selection of the
  public key does not throw, if no artifact data is supplied, signature verification,
  and with it \<open>verify\<close>, fails with the VerificationError
  \<open>no data provided for message signature verification\<close> (which carries no error
  code), whatever the digest and signature functions are: no digest or signature is
  compared.
\<close>

theorem C7_no_data:
  assumes "content bundle = Some (Case_messageSignature ms)"
    and "getPublicKey V C bundle = Inr key"
  shows "verifyArtifactSignature V (C\<lparr>crypto_hash := h, crypto_verifyBlob := vb\<rparr>) bundle None =
           Inl (VerificationError None ''no data provided for message signature verification'')
       \<and> verify V (C\<lparr>crypto_hash := h, crypto_verifyBlob := vb\<rparr>) bundle options None =
           Inl (VerificationError None ''no data provided for message signature verification'')"
  using assms by (simp add: verify_def verifyArtifactSignature_def)

text \<open>Witness: a message-signature bundle with a certificate chain, verified without data.\<close>

theorem C7_no_data_witness:
  "content (message_bundle (Some (Case_x509CertificateChain [[1, 5]])) []) =
     Some (Case_messageSignature
             \<lparr>messageDigest = \<lparr>algorithm = SHA2_256, digest = [104]\<rparr>, msg_signature = [1]\<rparr>)
   \<and> getPublicKey test_verifier test_collaborators
        (message_bundle (Some (Case_x509CertificateChain [[1, 5]])) []) = Inr (Some 1)
   \<and> verify test_verifier test_collaborators
        (message_bundle (Some (Case_x509CertificateChain [[1, 5]])) []) (test_options 1) None =
       Inl (VerificationError None ''no data provided for message signature verification'')"
proof -
  let ?b = "message_bundle (Some (Case_x509CertificateChain [[1, 5]])) []"
  have a: "content ?b =
     Some (Case_messageSignature
             \<lparr>messageDigest = \<lparr>algorithm = SHA2_256, digest = [104]\<rparr>, msg_signature = [1]\<rparr>)"
    by (simp add: message_bundle_def)
  have b: "getPublicKey test_verifier test_collaborators ?b = Inr (Some 1)"
    by (simp add: test_defs getPublicKey_def getPublicKeyFromCertificateChain_def)
  have c: "test_collaborators\<lparr>crypto_hash := crypto_hash test_collaborators,
             crypto_verifyBlob := crypto_verifyBlob test_collaborators\<rparr> = test_collaborators"
    by simp
  from C7_no_data [where h = "crypto_hash test_collaborators"
      and vb = "crypto_verifyBlob test_collaborators" and options = "test_options 1", OF a b]
  have "verify test_verifier test_collaborators ?b (test_options 1) None =
       Inl (VerificationError None ''no data provided for message signature verification'')"
    unfolding c by simp
  with a b show ?thesis by simp
qed

subsection \<open>C9: the outcomes of verify\<close>

text \<open>
  C9 (the code at two failing inputs): \<open>verify\<close> of a DSSE bundle whose envelope has
  no signature throws a TypeError (\<open>envelope.signatures[0].sig\<close> reads a property of
  \<open>undefined\<close>), and \<open>verify\<close> of a bundle whose leaf certificate yields no public
  key lets the exception of \<open>crypto.createPublicKey\<close> through, which
  \<open>getPublicKeyFromHint\<close> catches and \<open>getPublicKeyFromCertificateChain\<close> does
  not. Neither outcome is unit or a VerificationError.
\<close>

theorem C9_verify_other_outcomes:
  "verify test_verifier test_collaborators (dsse_bundle []) (test_options 1) None
     = Inl TypeError
   \<and> \<not> isVerificationError TypeError
   \<and> verify test_verifier test_collaborators
       (message_bundle (Some (Case_x509CertificateChain [[]])) []) (test_options 1)
       (Some (bytes_of ''hello'')) = Inl ForeignError
   \<and> \<not> isVerificationError ForeignError"
  by (simp add: test_defs verifier_defs js_def)

subsection \<open>The outcomes of verify on guarded inputs\<close>

text \<open>
  Away from the two inputs above the outcome is unit or a VerificationError: when the
  selection of the key returns, a DSSE envelope has a first signature, and the
  verification of the certificate chain and the parser of the signing certificate throw
  VerificationErrors only.
\<close>

lemma verifyTLogEntries_outcome:
  assumes "\<And>e. signingCertificate C bundle = Inl e \<Longrightarrow> isVerificationError e"
  shows "verifyTLogEntries C bundle root options = Inr ()
         \<or> (\<exists>e. verifyTLogEntries C bundle root options = Inl e \<and> isVerificationError e)"
  using assms
  by (cases "signingCertificate C bundle") (auto simp: verifyTLogEntries_def Let_def)

lemma verifyArtifactSignature_outcome:
  assumes "getPublicKey V C bundle = Inr key"
    and "\<And>env. content bundle = Some (Case_dsseEnvelope env) \<Longrightarrow> dsse_signatures env \<noteq> []"
  shows "verifyArtifactSignature V C bundle data = Inr ()
         \<or> (\<exists>e. verifyArtifactSignature V C bundle data = Inl e \<and> isVerificationError e)"
proof (cases "content bundle")
  case None
  with assms show ?thesis by (simp add: verifyArtifactSignature_def)
next
  case (Some c)
  show ?thesis
  proof (cases c)
    case (Case_messageSignature ms)
    with Some assms(1) show ?thesis
      by (cases data) (auto simp: verifyArtifactSignature_def verifyMessageSignature_def Let_def)
  next
    case (Case_dsseEnvelope env)
    with Some assms(2) have "dsse_signatures env \<noteq> []" by simp
    then obtain s ss where "dsse_signatures env = s # ss" by (cases "dsse_signatures env") auto
    with Some Case_dsseEnvelope assms(1) show ?thesis
      by (auto simp: verifyArtifactSignature_def verifyDSSESignature_def Let_def)
  qed
qed

lemma verify_outcome_when_guarded:
  assumes "getPublicKey V C bundle = Inr key"
    and "\<And>env. content bundle = Some (Case_dsseEnvelope env) \<Longrightarrow> dsse_signatures env \<noteq> []"
    and "\<And>e. ca_verifySigningCertificate C bundle (trustedRoot V) options = Inl e
            \<Longrightarrow> isVerificationError e"
    and "\<And>e. signingCertificate C bundle = Inl e \<Longrightarrow> isVerificationError e"
  shows "verify V C bundle options data = Inr ()
         \<or> (\<exists>e. verify V C bundle options data = Inl e \<and> isVerificationError e)"
proof -
  note a = verifyArtifactSignature_outcome [OF assms(1,2), of data]
  note t = verifyTLogEntries_outcome [where root = "trustedRoot V"
      and options = "tlogOptions options", OF assms(4)]
  have c: "verifySigningCertificate V C bundle options = Inr ()
         \<or> (\<exists>e. verifySigningCertificate V C bundle options = Inl e \<and> isVerificationError e)"
    using assms(3)
    by (cases "ca_verifySigningCertificate C bundle (trustedRoot V) options")
       (auto simp: verifySigningCertificate_def)
  show ?thesis
    using a t c by (auto simp: verify_def split: sum.splits)
qed

subsection \<open>C5: duplicate log entries\<close>


lemma same_log_index_integer:
  "parse_log_index a = Some n \<Longrightarrow> parse_log_index b = Some n \<Longrightarrow> same_log_index a b"
  by (simp add: same_log_index_def)



lemma duplicate_entries_timestamp_error:
  "has_duplicate_entries entries \<Longrightarrow>
   verify_timestamps entry_time token_time tlog_threshold tsa_threshold entries tokens
     = Inl ''TIMESTAMP_ERROR''"
  by (simp add: verify_timestamps_def)




text \<open>
  Without duplicates, the timestamp step is the comparison of the two counts of valid
  timestamps with their thresholds.
\<close>

lemma verify_timestamps_thresholds:
  assumes "\<not> has_duplicate_entries entries"
  shows "verify_timestamps entry_time token_time tlog_threshold tsa_threshold entries tokens
           = (if length (List.map_filter entry_time entries) < tlog_threshold
                 \<or> length (List.map_filter token_time tokens) < tsa_threshold
              then Inl ''TIMESTAMP_ERROR''
              else Inr (List.map_filter entry_time entries @ List.map_filter token_time tokens))"
  using assms by (simp add: verify_timestamps_def Let_def)

subsection \<open>Base64 decodes what it encodes\<close>

lemma unat_unit_of_sextet:
  "n < 64 \<Longrightarrow>
   unat (unit_of_sextet n) =
     (if n < 26 then n + 65 else if n < 52 then n + 71 else if n < 62 then n - 4
      else if n = 62 then 43 else 47)"
  unfolding unit_of_sextet_def
  by (simp add: unat_of_nat del: of_nat_add of_nat_diff)

lemma sextet_of_unit_of_sextet: "n < 64 \<Longrightarrow> sextet_of (unit_of_sextet n) = Some n"
  unfolding sextet_of_def Let_def
  by (simp add: unat_unit_of_sextet) arith

lemma sextet_of_padding: "sextet_of 61 = None"
  by (simp add: sextet_of_def)

lemma byte_lt: "unat (a :: byte) < 256"
proof -
  have "unat a < 2 ^ LENGTH(8)" by (rule unsigned_less)
  then show ?thesis by simp
qed

lemma div_low: "b < n \<Longrightarrow> (a * n + b) div n = (a::nat)"
  by simp

lemma mod_low: "b < n \<Longrightarrow> (a * n + b) mod n = (b::nat)"
  by simp

lemma quot_bounds:
  "y < 256 \<Longrightarrow> y div 16 < (16::nat)"
  "z < 256 \<Longrightarrow> z div 64 < (4::nat)"
  "x < 256 \<Longrightarrow> x div 4 < (64::nat)"
  by (simp_all add: less_mult_imp_div_less)

text \<open>Three bytes are cut into four sextets, and the sextets put together again.\<close>

lemma join1: "y < 256 \<Longrightarrow> (x div 4) * 4 + ((x mod 4) * 16 + y div 16) div 16 = (x::nat)"
  by (simp only: div_low quot_bounds div_mult_mod_eq)

lemma join2:
  "y < 256 \<Longrightarrow> z < 256 \<Longrightarrow>
   (((x mod 4) * 16 + y div 16) mod 16) * 16 + ((y mod 16) * 4 + z div 64) div 4 = (y::nat)"
  by (simp only: div_low mod_low quot_bounds div_mult_mod_eq)

lemma join3:
  "z < 256 \<Longrightarrow> (((y mod 16) * 4 + z div 64) mod 4) * 64 + z mod 64 = (z::nat)"
  by (simp only: mod_low quot_bounds div_mult_mod_eq)

lemma join1_last: "(x div 4) * 4 + ((x mod 4) * 16) div 16 = (x::nat)"
  by simp

lemma join2_last:
  "y < 256 \<Longrightarrow>
   (((x mod 4) * 16 + y div 16) mod 16) * 16 + ((y mod 16) * 4) div 4 = (y::nat)"
  by (simp add: mod_low quot_bounds)

lemma sextet_bounds:
  "x < 256 \<Longrightarrow> x div 4 < (64::nat)"
  "y < 256 \<Longrightarrow> (x mod 4) * 16 + y div 16 < (64::nat)"
  "z < 256 \<Longrightarrow> (y mod 16) * 4 + z div 64 < (64::nat)"
  "z mod 64 < (64::nat)"
  "(x mod 4) * 16 < (64::nat)"
  "(y mod 16) * 4 < (64::nat)"
proof -
  have a: "x mod 4 < 4" "y mod 16 < 16" by simp_all
  show "x < 256 \<Longrightarrow> x div 4 < (64::nat)" by (simp add: less_mult_imp_div_less)
  show "y < 256 \<Longrightarrow> (x mod 4) * 16 + y div 16 < (64::nat)"
    using a(1) quot_bounds(1) [of y] by linarith
  show "z < 256 \<Longrightarrow> (y mod 16) * 4 + z div 64 < (64::nat)"
    using a(2) quot_bounds(2) [of z] by linarith
  show "z mod 64 < (64::nat)" by simp
  show "(x mod 4) * 16 < (64::nat)" using a(1) by linarith
  show "(y mod 16) * 4 < (64::nat)" using a(2) by linarith
qed

lemma base64_roundtrip [simp]: "base64_decode (base64_encode bs) = bs"
proof (induction bs rule: base64_encode.induct)
  case 1
  show ?case by (simp add: base64_decode_def)
next
  case (2 a)
  show ?case
    using byte_lt [of a]
    by (simp add: base64_decode_def Let_def sextet_of_unit_of_sextet sextet_bounds
        sextet_of_padding join1_last)
next
  case (3 a b)
  show ?case
    using byte_lt [of a] byte_lt [of b]
    by (simp add: base64_decode_def Let_def sextet_of_unit_of_sextet sextet_bounds
        sextet_of_padding join1 join2_last)
next
  case (4 a b c r)
  then show ?case
    using byte_lt [of a] byte_lt [of b] byte_lt [of c]
    by (simp add: base64_decode_def Let_def sextet_of_unit_of_sextet sextet_bounds
        join1 join2 join3)
qed

lemma base64_roundtrip_comp [simp]: "base64_decode \<circ> base64_encode = id"
  by (rule ext) simp

subsection \<open>The parts of a bundle survive the round trip\<close>

lemma hashAlgorithm_roundtrip [simp]: "hashAlgorithmFromJSON (hashAlgorithmToJSON a) = Some a"
  by (cases a) (simp_all add: hashAlgorithmFromJSON_def js_def)

lemma inclusionProof_roundtrip [simp]: "inclusionProofFromJSON (inclusionProofToJSON p) = p"
  by (simp add: inclusionProofFromJSON_def inclusionProofToJSON_def)

lemma tlogEntry_roundtrip [simp]: "tlogEntryFromJSON (tlogEntryToJSON e) = e"
  by (simp add: tlogEntryFromJSON_def tlogEntryToJSON_def option.map_comp comp_def
      option.map_ident)

lemma tlogEntry_roundtrip_comp [simp]: "tlogEntryFromJSON \<circ> tlogEntryToJSON = id"
  by (rule ext) simp

lemma material_roundtrip [simp]: "materialFromJSON (materialToJSON m) = m"
  by (cases m) simp_all

lemma signature_roundtrip_comp [simp]:
  "(\<lambda>(s, k). \<lparr>sig = base64_decode s, keyid = k\<rparr>) \<circ> (\<lambda>s. (base64_encode (sig s), keyid s))
     = id"
  by (rule ext) simp

lemma content_roundtrip [simp]: "contentFromJSON (contentToJSON c) = Some c"
  by (cases c) simp_all

subsection \<open>C8: a bundle survives the round trip through JSON\<close>

text \<open>
  C8: for every well-formed bundle of schema version 0.1, 0.2 or 0.3, deserializing
  the result of serializing it yields the bundle: \<open>bundleFromJSON\<close> after
  \<open>bundleToJSON\<close> is the identity.
\<close>

theorem C8_bundle_json_roundtrip:
  assumes "well_formed_bundle b"
  shows "bundleFromJSON (bundleToJSON b) = Inr b"
proof -
  have c: "(case ser_content (bundleToJSON b) of
              None \<Rightarrow> Some None
            | Some c \<Rightarrow> map_option Some (contentFromJSON c)) = Some (content b)"
    by (cases "content b") (simp_all add: bundleToJSON_def)
  have m: "map_option materialFromJSON (ser_material (bundleToJSON b))
             = vm_content (verificationMaterial b)"
    by (simp add: bundleToJSON_def option.map_comp comp_def option.map_ident)
  have t: "map_option (map base64_decode) (ser_timestampVerificationData (bundleToJSON b))
             = timestampVerificationData (verificationMaterial b)"
    by (simp add: bundleToJSON_def option.map_comp comp_def option.map_ident)
  have e: "map tlogEntryFromJSON (ser_tlogEntries (bundleToJSON b))
             = tlogEntries (verificationMaterial b)"
    by (simp add: bundleToJSON_def)
  have mt: "ser_mediaType (bundleToJSON b) = mediaType b"
    by (simp add: bundleToJSON_def)
  obtain mt' v c' where b: "b = \<lparr>mediaType = mt', verificationMaterial = v, content = c'\<rparr>"
    by (cases b) auto
  obtain x y z where v: "v = \<lparr>vm_content = x, tlogEntries = y, timestampVerificationData = z\<rparr>"
    by (cases v) auto
  have r: "\<lparr>mediaType = mediaType b,
            verificationMaterial =
              \<lparr>vm_content = vm_content (verificationMaterial b),
               tlogEntries = tlogEntries (verificationMaterial b),
               timestampVerificationData = timestampVerificationData (verificationMaterial b)\<rparr>,
            content = content b\<rparr> = b"
    by (simp add: b v)
  show ?thesis
    using assms by (simp add: bundleFromJSON_def c m t e mt Let_def r)
qed

text \<open>Witness: the three bundles of the tests, one of each version.\<close>

lemma test_bundles_well_formed:
  "well_formed_bundle bundle_v01" "well_formed_bundle bundle_v02" "well_formed_bundle bundle_v03"
  by (simp_all add: well_formed_bundle_def bundle_version_def bundle_v01_def bundle_v02_def
      bundle_v03_def test_envelope_def test_entry_def js_def)

theorem C8_bundle_json_roundtrip_witness:
  "well_formed_bundle bundle_v01 \<and> bundleFromJSON (bundleToJSON bundle_v01) = Inr bundle_v01
   \<and> well_formed_bundle bundle_v02 \<and> bundleFromJSON (bundleToJSON bundle_v02) = Inr bundle_v02
   \<and> well_formed_bundle bundle_v03 \<and> bundleFromJSON (bundleToJSON bundle_v03) = Inr bundle_v03"
  using test_bundles_well_formed
    C8_bundle_json_roundtrip [of bundle_v01] C8_bundle_json_roundtrip [of bundle_v02]
    C8_bundle_json_roundtrip [of bundle_v03]
  by blast

end
